theory Spec2Isabelle
  imports Complex_Main "HOL-Library.AList" "HOL-Library.Word"
begin

section \<open>Tables of telemetry data\<close>

text \<open>
  The script \<^verbatim>\<open>pandas_exercises.py\<close> works on one table, the variable
  \<^verbatim>\<open>telemetry\<close>, by column: it reads a column by name, computes a new column from
  it element by element, and stores the result under a new name.

  A cell of a column is a 64-bit integer, a 64-bit float, or a non-numeric object such
  as a string. The integers are machine words: their arithmetic wraps around. A float
  is a finite number, plus or minus infinity, or NaN (which the table library also uses
  to mark a missing value, for instance an empty field of the CSV file). A finite float
  stands for the real number it denotes, and an operation on floats gives the exact
  result when that is in the range of the floats and an infinity when it is beyond:
  rounding within the range and the sign of zero are outside this model.
\<close>

datatype double = Fin real | PInf | NInf | NaN

datatype cell = Int64 "64 word" | Float64 double | Str string

datatype py_error = KeyError string | IndexError | TypeError

text \<open>
  An exact result of this magnitude or more rounds to infinity: the largest finite
  float plus half a unit in its last place.
\<close>

definition overflow_threshold :: real where
  "overflow_threshold = 2 ^ 1024 - 2 ^ 970"

definition to_double :: "real \<Rightarrow> double" where
  "to_double r =
     (if overflow_threshold \<le> r then PInf
      else if r \<le> - overflow_threshold then NInf
      else Fin r)"

definition of_int64 :: "64 word \<Rightarrow> real" where
  "of_int64 x = real_of_int (sint x)"

text \<open>The values a float cell can hold, and the cells a column can hold.\<close>

fun valid_double :: "double \<Rightarrow> bool" where
  "valid_double (Fin x) = (\<bar>x\<bar> < overflow_threshold)"
| "valid_double PInf = True"
| "valid_double NInf = True"
| "valid_double NaN = True"

fun valid_cell :: "cell \<Rightarrow> bool" where
  "valid_cell (Float64 d) = valid_double d"
| "valid_cell (Int64 x) = True"
| "valid_cell (Str s) = True"

text \<open>
  A table has an index, of which only the length matters here, and an ordered list of
  named columns. In a well-formed table (\<open>wf_df\<close>) the names are distinct, every column
  is as long as the index, and every float is one a 64-bit float can hold.
\<close>

record dataframe =
  nrows :: nat
  cols :: "(string \<times> cell list) list"

definition wf_df :: "dataframe \<Rightarrow> bool" where
  "wf_df df \<longleftrightarrow>
     distinct (map fst (cols df))
   \<and> list_all (\<lambda>p. length (snd p) = nrows df \<and> list_all valid_cell (snd p)) (cols df)"

definition column :: "dataframe \<Rightarrow> string \<Rightarrow> cell list option" where
  "column df name = map_of (cols df) name"

definition column_names :: "dataframe \<Rightarrow> string list" where
  "column_names df = map fst (cols df)"

text \<open>An operand of the arithmetic is a scalar or a whole column (a Series).\<close>

datatype operand = Scalar cell | Series "cell list"

subsection \<open>Reading and writing columns\<close>

text \<open>\<^verbatim>\<open>telemetry[name]\<close>: the column, or KeyError when there is none of that name.\<close>

definition getitem :: "dataframe \<Rightarrow> string \<Rightarrow> py_error + cell list" where
  "getitem df name =
     (case column df name of None \<Rightarrow> Inl (KeyError name) | Some c \<Rightarrow> Inr c)"

text \<open>\<^verbatim>\<open>telemetry.get(name, default)\<close>: the column, or the default when there is none.\<close>

definition get_default :: "dataframe \<Rightarrow> string \<Rightarrow> cell \<Rightarrow> operand" where
  "get_default df name d =
     (case column df name of None \<Rightarrow> Scalar d | Some c \<Rightarrow> Series c)"

text \<open>
  \<^verbatim>\<open>telemetry[name] = value\<close>: a scalar is repeated for every row of the index; an
  existing column of that name is replaced where it stands, a new one is added last.
\<close>

definition broadcast :: "nat \<Rightarrow> operand \<Rightarrow> cell list" where
  "broadcast n v = (case v of Scalar a \<Rightarrow> replicate n a | Series xs \<Rightarrow> xs)"

definition setitem :: "dataframe \<Rightarrow> string \<Rightarrow> operand \<Rightarrow> dataframe" where
  "setitem df name v = df\<lparr>cols := AList.update name (broadcast (nrows df) v) (cols df)\<rparr>"

text \<open>\<^verbatim>\<open>series.iloc[0]\<close>: the first element, or IndexError on an empty column.\<close>

definition iloc0 :: "cell list \<Rightarrow> py_error + cell" where
  "iloc0 xs = (case xs of [] \<Rightarrow> Inl IndexError | x # _ \<Rightarrow> Inr x)"

subsection \<open>Arithmetic on floats\<close>

text \<open>
  Division by a float literal \<open>k\<close> of the script. Dividing by zero gives an infinity,
  or NaN for zero by zero.
\<close>

fun div_double :: "double \<Rightarrow> real \<Rightarrow> double" where
  "div_double (Fin x) k =
     (if k = 0 then (if 0 < x then PInf else if x < 0 then NInf else NaN)
      else to_double (x / k))"
| "div_double PInf k = (if k < 0 then NInf else PInf)"
| "div_double NInf k = (if k < 0 then PInf else NInf)"
| "div_double NaN k = NaN"

fun square_double :: "double \<Rightarrow> double" where
  "square_double (Fin x) = to_double (x\<^sup>2)"
| "square_double PInf = PInf"
| "square_double NInf = PInf"
| "square_double NaN = NaN"

text \<open>The square root of a negative number or of minus infinity is NaN.\<close>

fun sqrt_double :: "double \<Rightarrow> double" where
  "sqrt_double (Fin x) = (if x < 0 then NaN else to_double (sqrt x))"
| "sqrt_double PInf = PInf"
| "sqrt_double NInf = NaN"
| "sqrt_double NaN = NaN"

text \<open>Infinities of opposite sign add up to NaN.\<close>

fun add_double :: "double \<Rightarrow> double \<Rightarrow> double" where
  "add_double (Fin x) (Fin y) = to_double (x + y)"
| "add_double (Fin x) PInf = PInf"
| "add_double (Fin x) NInf = NInf"
| "add_double PInf (Fin y) = PInf"
| "add_double PInf PInf = PInf"
| "add_double PInf NInf = NaN"
| "add_double NInf (Fin y) = NInf"
| "add_double NInf PInf = NaN"
| "add_double NInf NInf = NInf"
| "add_double NaN e = NaN"
| "add_double d NaN = NaN"

text \<open>An infinity minus itself is NaN.\<close>

fun sub_double :: "double \<Rightarrow> double \<Rightarrow> double" where
  "sub_double (Fin x) (Fin y) = to_double (x - y)"
| "sub_double (Fin x) PInf = NInf"
| "sub_double (Fin x) NInf = PInf"
| "sub_double PInf (Fin y) = PInf"
| "sub_double PInf PInf = NaN"
| "sub_double PInf NInf = PInf"
| "sub_double NInf (Fin y) = NInf"
| "sub_double NInf PInf = NInf"
| "sub_double NInf NInf = NaN"
| "sub_double NaN e = NaN"
| "sub_double d NaN = NaN"

subsection \<open>Arithmetic on cells and columns\<close>

text \<open>
  An operation on a non-numeric cell raises TypeError. True division and the power 0.5
  turn an integer into a float first. The square of an integer is an integer, wrapped
  to 64 bits; so are the sum and the difference of two integers. An integer meeting a
  float is turned into a float. (\<open>as_double\<close> is applied to numeric cells only.)
\<close>

fun as_double :: "cell \<Rightarrow> double" where
  "as_double (Int64 x) = Fin (of_int64 x)"
| "as_double (Float64 d) = d"
| "as_double (Str s) = NaN"

fun truediv_cell :: "real \<Rightarrow> cell \<Rightarrow> py_error + cell" where
  "truediv_cell k (Str s) = Inl TypeError"
| "truediv_cell k c = Inr (Float64 (div_double (as_double c) k))"

fun pow2_cell :: "cell \<Rightarrow> py_error + cell" where
  "pow2_cell (Int64 x) = Inr (Int64 (x * x))"
| "pow2_cell (Float64 d) = Inr (Float64 (square_double d))"
| "pow2_cell (Str s) = Inl TypeError"

fun pow_half_cell :: "cell \<Rightarrow> py_error + cell" where
  "pow_half_cell (Str s) = Inl TypeError"
| "pow_half_cell c = Inr (Float64 (sqrt_double (as_double c)))"

fun add_cell :: "cell \<Rightarrow> cell \<Rightarrow> py_error + cell" where
  "add_cell (Str s) b = Inl TypeError"
| "add_cell a (Str s) = Inl TypeError"
| "add_cell (Int64 x) (Int64 y) = Inr (Int64 (x + y))"
| "add_cell a b = Inr (Float64 (add_double (as_double a) (as_double b)))"

fun sub_cell :: "cell \<Rightarrow> cell \<Rightarrow> py_error + cell" where
  "sub_cell (Str s) b = Inl TypeError"
| "sub_cell a (Str s) = Inl TypeError"
| "sub_cell (Int64 x) (Int64 y) = Inr (Int64 (x - y))"
| "sub_cell a b = Inr (Float64 (sub_double (as_double a) (as_double b)))"

text \<open>An element-wise operation stops at the first cell on which it raises.\<close>

fun map_err :: "('a \<Rightarrow> py_error + 'b) \<Rightarrow> 'a list \<Rightarrow> py_error + 'b list" where
  "map_err f [] = Inr []"
| "map_err f (x # xs) =
     (case f x of
        Inl e \<Rightarrow> Inl e
      | Inr y \<Rightarrow> (case map_err f xs of Inl e \<Rightarrow> Inl e | Inr ys \<Rightarrow> Inr (y # ys)))"

fun unary :: "(cell \<Rightarrow> py_error + cell) \<Rightarrow> operand \<Rightarrow> py_error + operand" where
  "unary f (Scalar a) = (case f a of Inl e \<Rightarrow> Inl e | Inr b \<Rightarrow> Inr (Scalar b))"
| "unary f (Series xs) = (case map_err f xs of Inl e \<Rightarrow> Inl e | Inr ys \<Rightarrow> Inr (Series ys))"

text \<open>
  Two columns of the same table share its index, so they are combined position by
  position; a scalar is combined with every element of a column.
\<close>

fun binary :: "(cell \<Rightarrow> cell \<Rightarrow> py_error + cell) \<Rightarrow> operand \<Rightarrow> operand \<Rightarrow> py_error + operand" where
  "binary f (Scalar a) (Scalar b) =
     (case f a b of Inl e \<Rightarrow> Inl e | Inr c \<Rightarrow> Inr (Scalar c))"
| "binary f (Scalar a) (Series ys) =
     (case map_err (f a) ys of Inl e \<Rightarrow> Inl e | Inr zs \<Rightarrow> Inr (Series zs))"
| "binary f (Series xs) (Scalar b) =
     (case map_err (\<lambda>x. f x b) xs of Inl e \<Rightarrow> Inl e | Inr zs \<Rightarrow> Inr (Series zs))"
| "binary f (Series xs) (Series ys) =
     (case map_err (\<lambda>p. f (fst p) (snd p)) (zip xs ys) of
        Inl e \<Rightarrow> Inl e
      | Inr zs \<Rightarrow> Inr (Series zs))"

definition truediv :: "operand \<Rightarrow> real \<Rightarrow> py_error + operand" where
  "truediv v k = unary (truediv_cell k) v"

definition pow2 :: "operand \<Rightarrow> py_error + operand" where
  "pow2 v = unary pow2_cell v"

definition pow_half :: "operand \<Rightarrow> py_error + operand" where
  "pow_half v = unary pow_half_cell v"

definition add :: "operand \<Rightarrow> operand \<Rightarrow> py_error + operand" where
  "add v w = binary add_cell v w"

definition sub :: "operand \<Rightarrow> operand \<Rightarrow> py_error + operand" where
  "sub v w = binary sub_cell v w"

section \<open>The statements of the script\<close>

text \<open>
  Each assignment evaluates its right-hand side, which may raise, and then stores the
  new column in the table. Line 83 and line 139:
  \<^verbatim>\<open>telemetry['speed_ms'] = telemetry['speed_kmh'] / 3.6\<close>
\<close>

definition assign_speed_ms :: "dataframe \<Rightarrow> py_error + dataframe" where
  "assign_speed_ms df =
     (case getitem df ''speed_kmh'' of
        Inl e \<Rightarrow> Inl e
      | Inr kmh \<Rightarrow>
          (case truediv (Series kmh) 3.6 of
             Inl e \<Rightarrow> Inl e
           | Inr v \<Rightarrow> Inr (setitem df ''speed_ms'' v)))"

text \<open>
  Line 84, where an absent column is read as the scalar 0:
  \<^verbatim>\<open>telemetry['total_g'] = (telemetry.get('lateral_g', 0)**2 + telemetry.get('longitudinal_g', 0)**2)**0.5\<close>
\<close>

definition assign_total_g :: "dataframe \<Rightarrow> py_error + dataframe" where
  "assign_total_g df =
     (case pow2 (get_default df ''lateral_g'' (Int64 0)) of
        Inl e \<Rightarrow> Inl e
      | Inr la2 \<Rightarrow>
          (case pow2 (get_default df ''longitudinal_g'' (Int64 0)) of
             Inl e \<Rightarrow> Inl e
           | Inr lo2 \<Rightarrow>
               (case add la2 lo2 of
                  Inl e \<Rightarrow> Inl e
                | Inr s \<Rightarrow>
                    (case pow_half s of
                       Inl e \<Rightarrow> Inl e
                     | Inr v \<Rightarrow> Inr (setitem df ''total_g'' v)))))"

text \<open>
  Line 140, on the table read from the CSV file, where both columns are required:
  \<^verbatim>\<open>telemetry['total_g'] = (telemetry['lateral_g']**2 + telemetry['longitudinal_g']**2)**0.5\<close>
\<close>

definition assign_total_g_csv :: "dataframe \<Rightarrow> py_error + dataframe" where
  "assign_total_g_csv df =
     (case getitem df ''lateral_g'' of
        Inl e \<Rightarrow> Inl e
      | Inr la \<Rightarrow>
          (case pow2 (Series la) of
             Inl e \<Rightarrow> Inl e
           | Inr la2 \<Rightarrow>
               (case getitem df ''longitudinal_g'' of
                  Inl e \<Rightarrow> Inl e
                | Inr lo \<Rightarrow>
                    (case pow2 (Series lo) of
                       Inl e \<Rightarrow> Inl e
                     | Inr lo2 \<Rightarrow>
                         (case add la2 lo2 of
                            Inl e \<Rightarrow> Inl e
                          | Inr s \<Rightarrow>
                              (case pow_half s of
                                 Inl e \<Rightarrow> Inl e
                               | Inr v \<Rightarrow> Inr (setitem df ''total_g'' v)))))))"

text \<open>
  Line 87 and line 143:
  \<^verbatim>\<open>telemetry['time_minutes'] = telemetry['time_s'] / 60\<close>
\<close>

definition assign_time_minutes :: "dataframe \<Rightarrow> py_error + dataframe" where
  "assign_time_minutes df =
     (case getitem df ''time_s'' of
        Inl e \<Rightarrow> Inl e
      | Inr ts \<Rightarrow>
          (case truediv (Series ts) 60 of
             Inl e \<Rightarrow> Inl e
           | Inr v \<Rightarrow> Inr (setitem df ''time_minutes'' v)))"

text \<open>
  Line 90 and line 146:
  \<^verbatim>\<open>telemetry['time_relative'] = telemetry['time_s'] - telemetry['time_s'].iloc[0]\<close>
\<close>

definition assign_time_relative :: "dataframe \<Rightarrow> py_error + dataframe" where
  "assign_time_relative df =
     (case getitem df ''time_s'' of
        Inl e \<Rightarrow> Inl e
      | Inr ts \<Rightarrow>
          (case getitem df ''time_s'' of
             Inl e \<Rightarrow> Inl e
           | Inr ts' \<Rightarrow>
               (case iloc0 ts' of
                  Inl e \<Rightarrow> Inl e
                | Inr t0 \<Rightarrow>
                    (case sub (Series ts) (Scalar t0) of
                       Inl e \<Rightarrow> Inl e
                     | Inr v \<Rightarrow> Inr (setitem df ''time_relative'' v)))))"

text \<open>
  The statements run in order on the one table, which each of them updates in place.
  When a statement raises, the script stops there: the result is the error and the
  table as the statements before it left it.
\<close>

fun run :: "(dataframe \<Rightarrow> py_error + dataframe) list \<Rightarrow> dataframe \<Rightarrow> py_error option \<times> dataframe" where
  "run [] df = (None, df)"
| "run (s # ss) df = (case s df of Inl e \<Rightarrow> (Some e, df) | Inr df' \<Rightarrow> run ss df')"

text \<open>Lines 83 to 90, on the table built in the script.\<close>

definition derive_stmts :: "(dataframe \<Rightarrow> py_error + dataframe) list" where
  "derive_stmts = [assign_speed_ms, assign_total_g, assign_time_minutes, assign_time_relative]"

definition derive :: "dataframe \<Rightarrow> py_error option \<times> dataframe" where
  "derive df = run derive_stmts df"

text \<open>Lines 139 to 146, on the table read from the CSV file.\<close>

definition derive_csv_stmts :: "(dataframe \<Rightarrow> py_error + dataframe) list" where
  "derive_csv_stmts =
     [assign_speed_ms, assign_total_g_csv, assign_time_minutes, assign_time_relative]"

definition derive_csv :: "dataframe \<Rightarrow> py_error option \<times> dataframe" where
  "derive_csv df = run derive_csv_stmts df"

definition derived_fields :: "string list" where
  "derived_fields = [''speed_ms'', ''total_g'', ''time_minutes'', ''time_relative'']"

definition raw_fields :: "string list" where
  "raw_fields = [''time_s'', ''speed_kmh'', ''distance_m'', ''brake_pressure_bar'', ''rpm'',
                 ''lateral_g'', ''longitudinal_g'']"

subsection \<open>Renaming columns\<close>

text \<open>
  \<^verbatim>\<open>df.rename(columns=mapper)\<close> returns a new table: a column whose name is a key of
  the mapper gets the mapped name, every other column keeps its name, and the data of
  the columns and the index are those of \<^verbatim>\<open>df\<close>.
\<close>

definition rename_label :: "(string \<times> string) list \<Rightarrow> string \<Rightarrow> string" where
  "rename_label mapper name = (case map_of mapper name of None \<Rightarrow> name | Some name' \<Rightarrow> name')"

definition rename :: "(string \<times> string) list \<Rightarrow> dataframe \<Rightarrow> dataframe" where
  "rename mapper df = df\<lparr>cols := map (\<lambda>p. (rename_label mapper (fst p), snd p)) (cols df)\<rparr>"

text \<open>
  The two variables of the script that hold tables; \<open>telemetry_renamed\<close> is unbound
  until lines 96 to 100 (or 152 to 156) assign it:
  \<^verbatim>\<open>telemetry_renamed = telemetry.rename(columns={'speed_kmh': 'velocity_kmh',
      'time_s': 'timestamp_seconds', 'distance_m': 'position_meters'})\<close>
\<close>

record script_state =
  telemetry :: dataframe
  telemetry_renamed :: "dataframe option"

definition rename_mapper :: "(string \<times> string) list" where
  "rename_mapper = [(''speed_kmh'', ''velocity_kmh''), (''time_s'', ''timestamp_seconds''),
                    (''distance_m'', ''position_meters'')]"

definition assign_telemetry_renamed :: "script_state \<Rightarrow> script_state" where
  "assign_telemetry_renamed st = st\<lparr>telemetry_renamed := Some (rename rename_mapper (telemetry st))\<rparr>"

text \<open>The table of lines 42 to 49.\<close>

definition telemetry_data :: dataframe where
  "telemetry_data =
     \<lparr>nrows = 5,
      cols = [(''speed_kmh'', [Int64 10, Int64 35, Int64 50, Int64 80, Int64 120]),
              (''distance_m'', [Int64 0, Int64 100, Int64 200, Int64 300, Int64 400]),
              (''time_s'', [Int64 0, Int64 1, Int64 2, Int64 3, Int64 4]),
              (''brake_pressure_bar'', [Int64 0, Int64 10, Int64 20, Int64 30, Int64 40]),
              (''rpm'', [Int64 1000, Int64 3000, Int64 5000, Int64 7000, Int64 9000])]\<rparr>"

section \<open>Notions used in the theorems\<close>

text \<open>A cell is numeric when arithmetic accepts it: an integer or a float.\<close>

fun numeric :: "cell \<Rightarrow> bool" where
  "numeric (Int64 x) = True"
| "numeric (Float64 d) = True"
| "numeric (Str s) = False"

fun numeric_op :: "operand \<Rightarrow> bool" where
  "numeric_op (Scalar a) = numeric a"
| "numeric_op (Series xs) = list_all numeric xs"

fun valid_op :: "operand \<Rightarrow> bool" where
  "valid_op (Scalar a) = valid_cell a"
| "valid_op (Series xs) = list_all valid_cell xs"

text \<open>A column fits a table of \<open>n\<close> rows when it has \<open>n\<close> cells; a scalar always fits.\<close>

fun fits :: "nat \<Rightarrow> operand \<Rightarrow> bool" where
  "fits n (Scalar a) = True"
| "fits n (Series xs) = (length xs = n)"

text \<open>
  The cell operations all behave alike on errors: they succeed, with a numeric result
  that a cell can hold, exactly on numeric cells, and raise TypeError otherwise.
\<close>

definition strict :: "(cell \<Rightarrow> py_error + cell) \<Rightarrow> bool" where
  "strict f \<longleftrightarrow>
     (\<forall>c. if numeric c then (\<exists>y. f c = Inr y \<and> numeric y \<and> valid_cell y)
          else f c = Inl TypeError)"

definition strict2 :: "(cell \<Rightarrow> cell \<Rightarrow> py_error + cell) \<Rightarrow> bool" where
  "strict2 f \<longleftrightarrow>
     (\<forall>a b. if numeric a \<and> numeric b then (\<exists>y. f a b = Inr y \<and> numeric y \<and> valid_cell y)
            else f a b = Inl TypeError)"

text \<open>
  A statement assigns a column when all it does to the table, if it does not raise, is
  to store one value under that name; the value fits when the table is well formed.
\<close>

definition assigns :: "(dataframe \<Rightarrow> py_error + dataframe) \<Rightarrow> string \<Rightarrow> bool" where
  "assigns s name \<longleftrightarrow>
     (\<forall>df d. s df = Inr d \<longrightarrow>
        (\<exists>v. (wf_df df \<longrightarrow> fits (nrows df) v \<and> valid_op v) \<and> d = setitem df name v))"

text \<open>A column of that name is there and holds a cell that is not numeric.\<close>

definition non_numeric :: "dataframe \<Rightarrow> string \<Rightarrow> bool" where
  "non_numeric df name = (case column df name of None \<Rightarrow> False | Some c \<Rightarrow> \<not> list_all numeric c)"

text \<open>
  The field \<open>name\<close> of the \<open>i\<close>-th record of a table: the \<open>i\<close>-th cell of that
  column, when there is such a column and such a row.
\<close>

definition cell_at :: "dataframe \<Rightarrow> string \<Rightarrow> nat \<Rightarrow> cell option" where
  "cell_at df name i =
     (case column df name of
        None \<Rightarrow> None
      | Some c \<Rightarrow> if i < length c then Some (c ! i) else None)"


text \<open>The number a cell denotes, when it is an integer or a finite float.\<close>

fun finite_value :: "cell \<Rightarrow> real option" where
  "finite_value (Int64 x) = Some (of_int64 x)"
| "finite_value (Float64 (Fin x)) = Some x"
| "finite_value c = None"

text \<open>
  The arithmetic of lines 84 and 140 on two cells stays in range: no square of an
  integer and no sum of two integers leaves the 64-bit integers, and the sum of the
  squares does not reach the overflow threshold of the floats.
\<close>

fun is_int64 :: "cell \<Rightarrow> bool" where
  "is_int64 (Int64 x) = True"
| "is_int64 c = False"


text \<open>
  The difference of two cells stays in range: that of two integers is a 64-bit integer,
  and in any case it does not reach the overflow threshold of the floats.
\<close>

definition difference_in_range :: "cell \<Rightarrow> cell \<Rightarrow> bool" where
  "difference_in_range a b =
     (case (finite_value a, finite_value b) of
        (Some x, Some y) \<Rightarrow>
          (is_int64 a \<and> is_int64 b \<longrightarrow> - (2 ^ 63) \<le> x - y \<and> x - y < 2 ^ 63)
        \<and> \<bar>x - y\<bar> < overflow_threshold
      | _ \<Rightarrow> False)"

text \<open>A field is a finite float that agrees with \<open>r\<close> to the three decimals written.\<close>

definition approx3 :: "cell option \<Rightarrow> real \<Rightarrow> bool" where
  "approx3 c r = (case c of Some (Float64 (Fin x)) \<Rightarrow> \<bar>x - r\<bar> \<le> 0.0005 | _ \<Rightarrow> False)"

subsection \<open>Sample tables\<close>

text \<open>The first two records of the table of lines 42 to 49.\<close>

definition scenario_input :: dataframe where
  "scenario_input =
     \<lparr>nrows = 2,
      cols = [(''time_s'', [Int64 0, Int64 1]),
              (''speed_kmh'', [Int64 10, Int64 35]),
              (''distance_m'', [Int64 0, Int64 100]),
              (''brake_pressure_bar'', [Int64 0, Int64 10]),
              (''rpm'', [Int64 1000, Int64 3000])]\<rparr>"

text \<open>The same records when the first \<^verbatim>\<open>time_s\<close> is missing, as an empty CSV field is.\<close>

definition time_nan_data :: dataframe where
  "time_nan_data =
     \<lparr>nrows = 2,
      cols = [(''time_s'', [Float64 NaN, Float64 (Fin 1)]),
              (''speed_kmh'', [Int64 10, Int64 35]),
              (''distance_m'', [Int64 0, Int64 100]),
              (''brake_pressure_bar'', [Int64 0, Int64 10]),
              (''rpm'', [Int64 1000, Int64 3000])]\<rparr>"

text \<open>A table without the columns \<^verbatim>\<open>rpm\<close>, \<^verbatim>\<open>brake_pressure_bar\<close> and \<^verbatim>\<open>distance_m\<close>.\<close>

definition no_rpm_data :: dataframe where
  "no_rpm_data =
     \<lparr>nrows = 2,
      cols = [(''time_s'', [Int64 0, Int64 1]),
              (''speed_kmh'', [Int64 10, Int64 35])]\<rparr>"

text \<open>A table without the column \<^verbatim>\<open>time_s\<close>.\<close>

definition no_time_data :: dataframe where
  "no_time_data =
     \<lparr>nrows = 2,
      cols = [(''speed_kmh'', [Int64 10, Int64 35]),
              (''distance_m'', [Int64 0, Int64 100]),
              (''brake_pressure_bar'', [Int64 0, Int64 10]),
              (''rpm'', [Int64 1000, Int64 3000])]\<rparr>"

text \<open>That table as lines 83 and 84 leave it.\<close>

definition no_time_partial :: dataframe where
  "no_time_partial =
     \<lparr>nrows = 2,
      cols = [(''speed_kmh'', [Int64 10, Int64 35]),
              (''distance_m'', [Int64 0, Int64 100]),
              (''brake_pressure_bar'', [Int64 0, Int64 10]),
              (''rpm'', [Int64 1000, Int64 3000]),
              (''speed_ms'', [Float64 (Fin (10 / 3.6)), Float64 (Fin (35 / 3.6))]),
              (''total_g'', [Float64 (Fin 0), Float64 (Fin 0)])]\<rparr>"

text \<open>A table with both acceleration columns, as the CSV file is expected to have.\<close>

definition sensor_data :: dataframe where
  "sensor_data =
     \<lparr>nrows = 2,
      cols = [(''time_s'', [Float64 (Fin 5), Float64 (Fin 6.5)]),
              (''speed_kmh'', [Float64 (Fin 36), Float64 (Fin 72)]),
              (''distance_m'', [Float64 (Fin 0), Float64 (Fin 15)]),
              (''brake_pressure_bar'', [Float64 (Fin 0), Float64 (Fin 10)]),
              (''rpm'', [Int64 1000, Int64 3000]),
              (''lateral_g'', [Float64 (Fin 3), Float64 NaN]),
              (''longitudinal_g'', [Float64 (Fin 4), Float64 (Fin 1)])]\<rparr>"



text \<open>A table with the two columns the derivation reads, and no rows.\<close>

definition empty_data :: dataframe where
  "empty_data = \<lparr>nrows = 0, cols = [(''time_s'', []), (''speed_kmh'', [])]\<rparr>"

text \<open>A table whose \<^verbatim>\<open>speed_kmh\<close> holds a string.\<close>

definition text_speed_data :: dataframe where
  "text_speed_data =
     \<lparr>nrows = 2,
      cols = [(''time_s'', [Int64 0, Int64 1]),
              (''speed_kmh'', [Int64 10, Str ''fast''])]\<rparr>"

text \<open>The table of lines 42 to 49 after lines 83 to 90.\<close>

definition telemetry_derived :: dataframe where
  "telemetry_derived =
     \<lparr>nrows = 5,
      cols = [(''speed_kmh'', [Int64 10, Int64 35, Int64 50, Int64 80, Int64 120]),
              (''distance_m'', [Int64 0, Int64 100, Int64 200, Int64 300, Int64 400]),
              (''time_s'', [Int64 0, Int64 1, Int64 2, Int64 3, Int64 4]),
              (''brake_pressure_bar'', [Int64 0, Int64 10, Int64 20, Int64 30, Int64 40]),
              (''rpm'', [Int64 1000, Int64 3000, Int64 5000, Int64 7000, Int64 9000]),
              (''speed_ms'', [Float64 (Fin (10 / 3.6)), Float64 (Fin (35 / 3.6)),
                              Float64 (Fin (50 / 3.6)), Float64 (Fin (80 / 3.6)),
                              Float64 (Fin (120 / 3.6))]),
              (''total_g'', [Float64 (Fin 0), Float64 (Fin 0), Float64 (Fin 0), Float64 (Fin 0),
                             Float64 (Fin 0)]),
              (''time_minutes'', [Float64 (Fin 0), Float64 (Fin (1 / 60)), Float64 (Fin (2 / 60)),
                                  Float64 (Fin (3 / 60)), Float64 (Fin (4 / 60))]),
              (''time_relative'', [Int64 0, Int64 1, Int64 2, Int64 3, Int64 4])]\<rparr>"

text \<open>The table \<open>sensor_data\<close> after lines 139 to 146.\<close>

definition sensor_derived :: dataframe where
  "sensor_derived =
     \<lparr>nrows = 2,
      cols = [(''time_s'', [Float64 (Fin 5), Float64 (Fin 6.5)]),
              (''speed_kmh'', [Float64 (Fin 36), Float64 (Fin 72)]),
              (''distance_m'', [Float64 (Fin 0), Float64 (Fin 15)]),
              (''brake_pressure_bar'', [Float64 (Fin 0), Float64 (Fin 10)]),
              (''rpm'', [Int64 1000, Int64 3000]),
              (''lateral_g'', [Float64 (Fin 3), Float64 NaN]),
              (''longitudinal_g'', [Float64 (Fin 4), Float64 (Fin 1)]),
              (''speed_ms'', [Float64 (Fin 10), Float64 (Fin 20)]),
              (''total_g'', [Float64 (Fin (sqrt 25)), Float64 NaN]),
              (''time_minutes'', [Float64 (Fin (5 / 60)), Float64 (Fin (6.5 / 60))]),
              (''time_relative'', [Float64 (Fin 0), Float64 (Fin 1.5)])]\<rparr>"

section \<open>Floats and integers\<close>

lemma threshold_pos: "0 < overflow_threshold"
  by (simp add: overflow_threshold_def)

lemma int64_below_threshold: "(2::real) ^ 63 < overflow_threshold"
  by (simp add: overflow_threshold_def)

lemma to_double_Fin: "\<bar>r\<bar> < overflow_threshold \<Longrightarrow> to_double r = Fin r"
  by (simp add: to_double_def abs_less_iff)

lemma valid_to_double: "valid_double (to_double r)"
  by (simp add: to_double_def abs_less_iff)



lemma valid_div_double: "valid_double (div_double d k)"
  by (cases d) (simp_all add: valid_to_double)

lemma valid_square_double: "valid_double (square_double d)"
  by (cases d) (simp_all add: valid_to_double)

lemma valid_sqrt_double: "valid_double (sqrt_double d)"
  by (cases d) (simp_all add: valid_to_double)

lemma valid_add_double: "valid_double (add_double d e)"
  by (cases d; cases e) (simp_all add: valid_to_double)

lemma valid_sub_double: "valid_double (sub_double d e)"
  by (cases d; cases e) (simp_all add: valid_to_double)

text \<open>Integer arithmetic is exact as long as the exact result is a 64-bit integer.\<close>

lemma sint_sub_exact:
  fixes a b :: "64 word"
  assumes "- (2 ^ 63) \<le> sint a - sint b" "sint a - sint b < 2 ^ 63"
  shows "sint (a - b) = sint a - sint b"
  using assms by (simp add: sint_word_ariths signed_take_bit_int_eq_self)



section \<open>Element-wise operations\<close>

lemma map_err_Inr_D: "map_err f xs = Inr ys \<Longrightarrow> list_all2 (\<lambda>x y. f x = Inr y) xs ys"
  by (induction xs arbitrary: ys) (auto split: sum.splits)

lemma map_err_Inl: "map_err f xs = Inl e \<Longrightarrow> \<exists>x\<in>set xs. f x = Inl e"
  by (induction xs) (auto split: sum.splits)

lemma strict_truediv: "strict (truediv_cell k)"
  unfolding strict_def
proof
  fix c
  show "if numeric c then (\<exists>y. truediv_cell k c = Inr y \<and> numeric y \<and> valid_cell y)
        else truediv_cell k c = Inl TypeError"
    by (cases c) (simp_all add: valid_div_double del: div_double.simps)
qed

lemma strict_pow2: "strict pow2_cell"
  unfolding strict_def
proof
  fix c
  show "if numeric c then (\<exists>y. pow2_cell c = Inr y \<and> numeric y \<and> valid_cell y)
        else pow2_cell c = Inl TypeError"
    by (cases c) (simp_all add: valid_square_double del: square_double.simps)
qed

lemma strict_pow_half: "strict pow_half_cell"
  unfolding strict_def
proof
  fix c
  show "if numeric c then (\<exists>y. pow_half_cell c = Inr y \<and> numeric y \<and> valid_cell y)
        else pow_half_cell c = Inl TypeError"
    by (cases c) (simp_all add: valid_sqrt_double del: sqrt_double.simps)
qed

lemma strict2_add: "strict2 add_cell"
  unfolding strict2_def
proof (intro allI)
  fix a b
  show "if numeric a \<and> numeric b then (\<exists>y. add_cell a b = Inr y \<and> numeric y \<and> valid_cell y)
        else add_cell a b = Inl TypeError"
    by (cases a; cases b) (simp_all add: valid_add_double del: add_double.simps)
qed

lemma strict2_sub: "strict2 sub_cell"
  unfolding strict2_def
proof (intro allI)
  fix a b
  show "if numeric a \<and> numeric b then (\<exists>y. sub_cell a b = Inr y \<and> numeric y \<and> valid_cell y)
        else sub_cell a b = Inl TypeError"
    by (cases a; cases b) (simp_all add: valid_sub_double del: sub_double.simps)
qed

lemma strictD_num: "strict f \<Longrightarrow> numeric c \<Longrightarrow> \<exists>y. f c = Inr y \<and> numeric y"
  unfolding strict_def by metis

lemma strictD_Inr: "strict f \<Longrightarrow> f c = Inr y \<Longrightarrow> numeric c \<and> numeric y \<and> valid_cell y"
  unfolding strict_def by (metis Inl_Inr_False sum.inject(2))

lemma strictD_Inl: "strict f \<Longrightarrow> f c = Inl e \<Longrightarrow> e = TypeError \<and> \<not> numeric c"
  unfolding strict_def by (metis Inl_Inr_False sum.inject(1))

lemma strict2D_num: "strict2 f \<Longrightarrow> numeric a \<Longrightarrow> numeric b \<Longrightarrow> \<exists>y. f a b = Inr y \<and> numeric y"
  unfolding strict2_def by metis

lemma strict2D_Inr: "strict2 f \<Longrightarrow> f a b = Inr y \<Longrightarrow> numeric y \<and> valid_cell y"
  unfolding strict2_def by (metis Inl_Inr_False sum.inject(2))

lemma strict2D_Inl: "strict2 f \<Longrightarrow> f a b = Inl e \<Longrightarrow> e = TypeError"
  unfolding strict2_def by (metis Inl_Inr_False sum.inject(1))

text \<open>What holds of every result of the cell function holds of every cell of the column.\<close>

lemma map_err_results:
  assumes "map_err g xs = Inr ys" and "\<And>x y. g x = Inr y \<Longrightarrow> P y"
  shows "list_all P ys"
  using assms(1)
proof (induction xs arbitrary: ys)
  case Nil
  then show ?case by simp
next
  case (Cons x xs)
  then show ?case using assms(2) by (auto split: sum.splits)
qed

lemma map_err_strict_Inr:
  assumes "strict f" "map_err f xs = Inr ys"
  shows "list_all numeric xs \<and> list_all numeric ys"
  using assms(2)
proof (induction xs arbitrary: ys)
  case Nil
  then show ?case by simp
next
  case (Cons x xs)
  then show ?case using strictD_Inr [OF assms(1)]
    by (auto split: sum.splits)
qed

lemma map_err_strict_total:
  assumes "strict f" "list_all numeric xs"
  shows "\<exists>ys. map_err f xs = Inr ys"
  using assms(2)
proof (induction xs)
  case Nil
  then show ?case by simp
next
  case (Cons x xs)
  then show ?case using strictD_num [OF assms(1), of x]
    by (auto split: sum.splits)
qed

lemma map_err_strict_Inl:
  assumes "strict f" "map_err f xs = Inl e"
  shows "e = TypeError"
  using map_err_Inl [OF assms(2)] strictD_Inl [OF assms(1)] by blast

lemma unary_Inr:
  assumes "unary f v = Inr w" "fits n v"
  shows "fits n w \<and> (\<forall>i<n. f (broadcast n v ! i) = Inr (broadcast n w ! i))"
proof (cases v)
  case (Scalar a)
  with assms show ?thesis by (auto simp: broadcast_def split: sum.splits)
next
  case (Series xs)
  with assms obtain ys where ys: "map_err f xs = Inr ys" "w = Series ys"
    by (auto split: sum.splits)
  from map_err_Inr_D [OF ys(1)] have "list_all2 (\<lambda>x y. f x = Inr y) xs ys" .
  then show ?thesis using Series ys(2) assms(2)
    by (auto simp: broadcast_def list_all2_conv_all_nth)
qed

lemma unary_strict_Inr:
  assumes "strict f" "unary f v = Inr w"
  shows "numeric_op v \<and> numeric_op w \<and> valid_op w"
proof (cases v)
  case (Scalar a)
  with assms(2) strictD_Inr [OF assms(1)] show ?thesis by (auto split: sum.splits)
next
  case (Series xs)
  with assms(2) obtain ys where ys: "map_err f xs = Inr ys" "w = Series ys"
    by (auto split: sum.splits)
  from map_err_results [OF ys(1), of valid_cell] strictD_Inr [OF assms(1)]
  have "list_all valid_cell ys" by blast
  with Series ys map_err_strict_Inr [OF assms(1) ys(1)] show ?thesis by simp
qed

lemma unary_strict_total:
  assumes "strict f" "numeric_op v"
  shows "\<exists>w. unary f v = Inr w"
proof (cases v)
  case (Scalar a)
  with assms(2) strictD_num [OF assms(1), of a] show ?thesis by auto
next
  case (Series xs)
  with assms(2) map_err_strict_total [OF assms(1), of xs] show ?thesis by auto
qed

lemma unary_strict_Inl:
  assumes "strict f" "unary f v = Inl e"
  shows "e = TypeError"
proof (cases v)
  case (Scalar a)
  with assms(2) strictD_Inl [OF assms(1)] show ?thesis by (auto split: sum.splits)
next
  case (Series xs)
  with assms(2) map_err_strict_Inl [OF assms(1)] show ?thesis by (auto split: sum.splits)
qed

lemma unary_strict_fail:
  assumes "strict f" "\<not> numeric_op v"
  shows "unary f v = Inl TypeError"
proof (cases "unary f v")
  case (Inl e)
  with unary_strict_Inl [OF assms(1)] show ?thesis by simp
next
  case (Inr w)
  with unary_strict_Inr [OF assms(1)] assms(2) show ?thesis by blast
qed

lemma binary_Inr:
  assumes "binary f v w = Inr u" "fits n v" "fits n w"
  shows "fits n u \<and> (\<forall>i<n. f (broadcast n v ! i) (broadcast n w ! i) = Inr (broadcast n u ! i))"
proof (cases v; cases w)
  fix a b assume "v = Scalar a" "w = Scalar b"
  with assms show ?thesis by (auto simp: broadcast_def split: sum.splits)
next
  fix a ys assume vw: "v = Scalar a" "w = Series ys"
  with assms obtain zs where zs: "map_err (f a) ys = Inr zs" "u = Series zs"
    by (auto split: sum.splits)
  from map_err_Inr_D [OF zs(1)] show ?thesis using vw zs(2) assms(3)
    by (auto simp: broadcast_def list_all2_conv_all_nth)
next
  fix xs b assume vw: "v = Series xs" "w = Scalar b"
  with assms obtain zs where zs: "map_err (\<lambda>x. f x b) xs = Inr zs" "u = Series zs"
    by (auto split: sum.splits)
  from map_err_Inr_D [OF zs(1)] show ?thesis using vw zs(2) assms(2)
    by (auto simp: broadcast_def list_all2_conv_all_nth)
next
  fix xs ys assume vw: "v = Series xs" "w = Series ys"
  with assms obtain zs where zs: "map_err (\<lambda>p. f (fst p) (snd p)) (zip xs ys) = Inr zs" "u = Series zs"
    by (auto split: sum.splits)
  from map_err_Inr_D [OF zs(1)] show ?thesis using vw zs(2) assms(2,3)
    by (auto simp: broadcast_def list_all2_conv_all_nth)
qed

lemma binary_strict_Inr:
  assumes "strict2 f" "binary f v w = Inr u"
  shows "numeric_op u \<and> valid_op u"
proof -
  have r: "numeric y \<and> valid_cell y" if "f a b = Inr y" for a b y
    using strict2D_Inr [OF assms(1) that] .
  show ?thesis
  proof (cases v; cases w)
    fix a b assume "v = Scalar a" "w = Scalar b"
    with assms(2) r show ?thesis by (auto split: sum.splits)
  next
    fix a ys assume vw: "v = Scalar a" "w = Series ys"
    with assms(2) obtain zs where zs: "map_err (f a) ys = Inr zs" "u = Series zs"
      by (auto split: sum.splits)
    from map_err_results [OF zs(1), of "\<lambda>y. numeric y \<and> valid_cell y"] r
    have "list_all (\<lambda>y. numeric y \<and> valid_cell y) zs" by blast
    with zs(2) show ?thesis by (simp add: list_all_iff)
  next
    fix xs b assume vw: "v = Series xs" "w = Scalar b"
    with assms(2) obtain zs where zs: "map_err (\<lambda>x. f x b) xs = Inr zs" "u = Series zs"
      by (auto split: sum.splits)
    from map_err_results [OF zs(1), of "\<lambda>y. numeric y \<and> valid_cell y"] r
    have "list_all (\<lambda>y. numeric y \<and> valid_cell y) zs" by blast
    with zs(2) show ?thesis by (simp add: list_all_iff)
  next
    fix xs ys assume vw: "v = Series xs" "w = Series ys"
    with assms(2) obtain zs where zs: "map_err (\<lambda>p. f (fst p) (snd p)) (zip xs ys) = Inr zs"
      "u = Series zs"
      by (auto split: sum.splits)
    from map_err_results [OF zs(1), of "\<lambda>y. numeric y \<and> valid_cell y"] r
    have "list_all (\<lambda>y. numeric y \<and> valid_cell y) zs" by blast
    with zs(2) show ?thesis by (simp add: list_all_iff)
  qed
qed

lemma binary_strict_total:
  assumes "strict2 f" "numeric_op v" "numeric_op w"
  shows "\<exists>u. binary f v w = Inr u \<and> numeric_op u"
proof -
  have tot: "\<exists>zs. map_err g xs = Inr zs \<and> list_all numeric zs"
    if "\<forall>x\<in>set xs. \<exists>y. g x = Inr y \<and> numeric y" for g :: "'a \<Rightarrow> py_error + cell" and xs
    using that by (induction xs) (auto split: sum.splits)
  show ?thesis
  proof (cases v; cases w)
    fix a b assume "v = Scalar a" "w = Scalar b"
    with assms(2,3) strict2D_num [OF assms(1), of a b] show ?thesis by auto
  next
    fix a ys assume vw: "v = Scalar a" "w = Series ys"
    from vw assms(2,3) strict2D_num [OF assms(1), of a]
    have "\<forall>x\<in>set ys. \<exists>y. f a x = Inr y \<and> numeric y" by (auto simp: list_all_iff)
    from tot [OF this] vw show ?thesis by auto
  next
    fix xs b assume vw: "v = Series xs" "w = Scalar b"
    from vw assms(2,3) strict2D_num [OF assms(1), of _ b]
    have "\<forall>x\<in>set xs. \<exists>y. f x b = Inr y \<and> numeric y" by (auto simp: list_all_iff)
    from tot [OF this] vw show ?thesis by auto
  next
    fix xs ys assume vw: "v = Series xs" "w = Series ys"
    have "\<forall>p\<in>set (zip xs ys). \<exists>y. f (fst p) (snd p) = Inr y \<and> numeric y"
    proof
      fix p assume "p \<in> set (zip xs ys)"
      then have "(fst p, snd p) \<in> set (zip xs ys)" by simp
      then have "fst p \<in> set xs" "snd p \<in> set ys"
        by (rule set_zip_leftD, rule set_zip_rightD)
      with vw assms(2,3) have "numeric (fst p)" "numeric (snd p)"
        by (auto simp: list_all_iff)
      then show "\<exists>y. f (fst p) (snd p) = Inr y \<and> numeric y"
        by (rule strict2D_num [OF assms(1)])
    qed
    from tot [OF this] vw show ?thesis by auto
  qed
qed

lemma binary_strict_Inl:
  assumes "strict2 f" "binary f v w = Inl e"
  shows "e = TypeError"
proof -
  have *: "e = TypeError" if "map_err g xs = Inl e" "\<And>x e. g x = Inl e \<Longrightarrow> e = TypeError"
    for g :: "'a \<Rightarrow> py_error + cell" and xs
    using map_err_Inl [OF that(1)] that(2) by blast
  show ?thesis
  proof (cases v; cases w)
    fix a b assume "v = Scalar a" "w = Scalar b"
    with assms(2) strict2D_Inl [OF assms(1)] show ?thesis by (auto split: sum.splits)
  next
    fix a ys assume vw: "v = Scalar a" "w = Series ys"
    with assms(2) have "map_err (f a) ys = Inl e" by (auto split: sum.splits)
    from * [OF this] strict2D_Inl [OF assms(1)] show ?thesis by blast
  next
    fix xs b assume vw: "v = Series xs" "w = Scalar b"
    with assms(2) have "map_err (\<lambda>x. f x b) xs = Inl e" by (auto split: sum.splits)
    from * [OF this] strict2D_Inl [OF assms(1)] show ?thesis by blast
  next
    fix xs ys assume vw: "v = Series xs" "w = Series ys"
    with assms(2) have "map_err (\<lambda>p. f (fst p) (snd p)) (zip xs ys) = Inl e" by (auto split: sum.splits)
    from * [OF this] strict2D_Inl [OF assms(1)] show ?thesis by blast
  qed
qed

section \<open>Reading and writing columns, statement by statement\<close>

lemma nrows_setitem: "nrows (setitem df n v) = nrows df"
  by (simp add: setitem_def)

lemma column_setitem:
  "column (setitem df n v) m = (if m = n then Some (broadcast (nrows df) v) else column df m)"
  by (simp add: setitem_def column_def AList.update_conv')

lemma names_setitem: "set (column_names (setitem df n v)) = insert n (set (column_names df))"
  using AList.dom_update [of n "broadcast (nrows df) v" "cols df"]
  by (simp add: setitem_def column_names_def)

lemma length_broadcast: "fits n v \<Longrightarrow> length (broadcast n v) = n"
  by (cases v) (simp_all add: broadcast_def)

lemma set_update_subset: "set (AList.update k v al) \<subseteq> insert (k, v) (set al)"
  by (induction al) auto

lemma valid_broadcast: "valid_op v \<Longrightarrow> list_all valid_cell (broadcast n v)"
  by (cases v) (simp_all add: broadcast_def list_all_iff)

lemma wf_setitem:
  assumes "wf_df df" "fits (nrows df) v" "valid_op v"
  shows "wf_df (setitem df n v)"
proof -
  let ?c = "broadcast (nrows df) v"
  have "distinct (map fst (AList.update n ?c (cols df)))"
    using assms(1) by (simp add: wf_df_def AList.distinct_update)
  moreover have "length (snd p) = nrows df \<and> list_all valid_cell (snd p)"
    if "p \<in> set (AList.update n ?c (cols df))" for p
  proof -
    from that set_update_subset [of n ?c "cols df"]
    consider "p = (n, ?c)" | "p \<in> set (cols df)" by auto
    then show ?thesis
    proof cases
      case 1
      with assms(2,3) show ?thesis by (simp add: length_broadcast valid_broadcast)
    next
      case 2
      with assms(1) show ?thesis by (simp add: wf_df_def list_all_iff)
    qed
  qed
  ultimately show ?thesis
    by (simp add: wf_df_def setitem_def list_all_iff)
qed

lemma wf_column_length: "wf_df df \<Longrightarrow> column df n = Some c \<Longrightarrow> length c = nrows df"
  by (auto simp: wf_df_def column_def list_all_iff dest: map_of_SomeD)


lemma getitem_Inr: "getitem df n = Inr c \<longleftrightarrow> column df n = Some c"
  by (simp add: getitem_def split: option.splits)

lemma getitem_Inl: "getitem df n = Inl e \<longleftrightarrow> column df n = None \<and> e = KeyError n"
  by (auto simp: getitem_def split: option.splits)

lemma assign_speed_ms_Inr:
  "assign_speed_ms df = Inr d \<longleftrightarrow>
     (\<exists>kmh v. column df ''speed_kmh'' = Some kmh \<and> truediv (Series kmh) 3.6 = Inr v
        \<and> d = setitem df ''speed_ms'' v)"
  by (auto simp: assign_speed_ms_def getitem_Inr getitem_Inl split: sum.splits)

lemma assign_time_minutes_Inr:
  "assign_time_minutes df = Inr d \<longleftrightarrow>
     (\<exists>ts v. column df ''time_s'' = Some ts \<and> truediv (Series ts) 60 = Inr v
        \<and> d = setitem df ''time_minutes'' v)"
  by (auto simp: assign_time_minutes_def getitem_Inr getitem_Inl split: sum.splits)

lemma assign_time_relative_Inr:
  "assign_time_relative df = Inr d \<longleftrightarrow>
     (\<exists>ts t0 v. column df ''time_s'' = Some ts \<and> iloc0 ts = Inr t0
        \<and> sub (Series ts) (Scalar t0) = Inr v \<and> d = setitem df ''time_relative'' v)"
  by (auto simp: assign_time_relative_def getitem_Inr getitem_Inl split: sum.splits)

lemma assign_total_g_Inr:
  "assign_total_g df = Inr d \<longleftrightarrow>
     (\<exists>la2 lo2 s v. pow2 (get_default df ''lateral_g'' (Int64 0)) = Inr la2
        \<and> pow2 (get_default df ''longitudinal_g'' (Int64 0)) = Inr lo2
        \<and> add la2 lo2 = Inr s \<and> pow_half s = Inr v \<and> d = setitem df ''total_g'' v)"
  by (auto simp: assign_total_g_def split: sum.splits)

lemma assign_total_g_csv_Inr:
  "assign_total_g_csv df = Inr d \<longleftrightarrow>
     (\<exists>la lo la2 lo2 s v. column df ''lateral_g'' = Some la \<and> column df ''longitudinal_g'' = Some lo
        \<and> pow2 (Series la) = Inr la2 \<and> pow2 (Series lo) = Inr lo2
        \<and> add la2 lo2 = Inr s \<and> pow_half s = Inr v \<and> d = setitem df ''total_g'' v)"
  by (auto simp: assign_total_g_csv_def getitem_Inr getitem_Inl split: sum.splits)

lemma get_default_Some: "column df n = Some c \<Longrightarrow> get_default df n a = Series c"
  by (simp add: get_default_def)

lemma assign_total_g_csv_imp:
  "assign_total_g_csv df = Inr d \<Longrightarrow> assign_total_g df = Inr d"
  unfolding assign_total_g_csv_Inr assign_total_g_Inr
  by (auto simp: get_default_Some)

lemma iloc0_Inr: "iloc0 xs = Inr x \<longleftrightarrow> xs \<noteq> [] \<and> x = xs ! 0"
  by (cases xs) (auto simp: iloc0_def)

lemma run_None_4:
  "run [s1, s2, s3, s4] df = (None, out) \<longleftrightarrow>
     (\<exists>d1 d2 d3. s1 df = Inr d1 \<and> s2 d1 = Inr d2 \<and> s3 d2 = Inr d3 \<and> s4 d3 = Inr out)"
  by (auto split: sum.splits)

lemma derive_csv_imp_derive: "derive_csv df = (None, out) \<Longrightarrow> derive df = (None, out)"
  unfolding derive_def derive_csv_def derive_stmts_def derive_csv_stmts_def run_None_4
  using assign_total_g_csv_imp by blast

section \<open>Running the assignments\<close>

lemma fits_Series_column: "wf_df df \<Longrightarrow> column df n = Some c \<Longrightarrow> fits (nrows df) (Series c)"
  by (simp add: wf_column_length)

lemma truediv_result:
  assumes "truediv v k = Inr w"
  shows "valid_op w" and "fits n v \<Longrightarrow> fits n w"
  using assms unary_strict_Inr [OF strict_truediv] unary_Inr unfolding truediv_def by blast+

lemma pow2_result:
  assumes "pow2 v = Inr w"
  shows "valid_op w" and "fits n v \<Longrightarrow> fits n w"
  using assms unary_strict_Inr [OF strict_pow2] unary_Inr unfolding pow2_def by blast+

lemma pow_half_result:
  assumes "pow_half v = Inr w"
  shows "valid_op w" and "fits n v \<Longrightarrow> fits n w"
  using assms unary_strict_Inr [OF strict_pow_half] unary_Inr unfolding pow_half_def by blast+

lemma add_result:
  assumes "add v w = Inr u"
  shows "valid_op u" and "fits n v \<Longrightarrow> fits n w \<Longrightarrow> fits n u"
  using assms binary_strict_Inr [OF strict2_add] binary_Inr unfolding add_def by blast+

lemma sub_result:
  assumes "sub v w = Inr u"
  shows "valid_op u" and "fits n v \<Longrightarrow> fits n w \<Longrightarrow> fits n u"
  using assms binary_strict_Inr [OF strict2_sub] binary_Inr unfolding sub_def by blast+

lemma assigns_speed_ms: "assigns assign_speed_ms ''speed_ms''"
  unfolding assigns_def assign_speed_ms_Inr
  using truediv_result fits_Series_column by blast

lemma assigns_time_minutes: "assigns assign_time_minutes ''time_minutes''"
  unfolding assigns_def assign_time_minutes_Inr
  using truediv_result fits_Series_column by blast

lemma assigns_time_relative: "assigns assign_time_relative ''time_relative''"
  unfolding assigns_def assign_time_relative_Inr
  using sub_result fits_Series_column fits.simps(1) by blast

lemma fits_get_default: "wf_df df \<Longrightarrow> fits (nrows df) (get_default df n a)"
  by (simp add: get_default_def wf_column_length split: option.splits)

lemma root_sum_fits:
  assumes "pow2 a = Inr a2" "pow2 b = Inr b2" "add a2 b2 = Inr s" "pow_half s = Inr v"
    and "fits n a" "fits n b"
  shows "fits n v \<and> valid_op v"
proof -
  from assms(1,5) have "fits n a2" by (rule pow2_result(2))
  moreover from assms(2,6) have "fits n b2" by (rule pow2_result(2))
  ultimately have "fits n s" using assms(3) by (rule add_result(2) [rotated])
  then have "fits n v" using assms(4) by (rule pow_half_result(2) [rotated])
  with pow_half_result(1) [OF assms(4)] show ?thesis by simp
qed

lemma assigns_total_g: "assigns assign_total_g ''total_g''"
  unfolding assigns_def assign_total_g_Inr
  using root_sum_fits fits_get_default by blast

lemma assigns_total_g_csv: "assigns assign_total_g_csv ''total_g''"
  using assigns_total_g assign_total_g_csv_imp unfolding assigns_def by blast

lemma run_assigns:
  assumes "list_all2 assigns ss ns" "run ss df = (e, out)"
  shows "\<exists>k\<le>length ss. (e = None \<longleftrightarrow> k = length ss)
           \<and> run (take k ss) df = (None, out)
           \<and> (\<forall>e'. e = Some e' \<longrightarrow> (ss ! k) out = Inl e')
           \<and> nrows out = nrows df
           \<and> (\<forall>n. n \<notin> set (take k ns) \<longrightarrow> column out n = column df n)
           \<and> set (column_names out) = set (column_names df) \<union> set (take k ns)
           \<and> (wf_df df \<longrightarrow> wf_df out
                \<and> (\<forall>n\<in>set (take k ns). \<exists>c. column out n = Some c \<and> length c = nrows df))"
  using assms
proof (induction ss ns arbitrary: df rule: list_all2_induct)
  case Nil
  then show ?case by simp
next
  case (Cons s ss n ns)
  show ?case
  proof (cases "s df")
    case (Inl e')
    with Cons.prems have "e = Some e'" "out = df" by simp_all
    with Inl show ?thesis by (intro exI [of _ 0]) simp
  next
    case (Inr d)
    with Cons.prems have run: "run ss d = (e, out)" by simp
    from Cons.hyps(1) Inr obtain v where v: "wf_df df \<longrightarrow> fits (nrows df) v \<and> valid_op v" "d = setitem df n v"
      unfolding assigns_def by blast
    from Cons.IH [OF run] obtain k where k: "k \<le> length ss" "e = None \<longleftrightarrow> k = length ss"
      "run (take k ss) d = (None, out)" "\<forall>e'. e = Some e' \<longrightarrow> (ss ! k) out = Inl e'"
      "nrows out = nrows d" "\<forall>m. m \<notin> set (take k ns) \<longrightarrow> column out m = column d m"
      "set (column_names out) = set (column_names d) \<union> set (take k ns)"
      "wf_df d \<longrightarrow> wf_df out \<and> (\<forall>m\<in>set (take k ns). \<exists>c. column out m = Some c \<and> length c = nrows d)"
      by blast
    have d_nrows: "nrows d = nrows df" using v(2) by (simp add: nrows_setitem)
    have d_col: "column d m = (if m = n then Some (broadcast (nrows df) v) else column df m)" for m
      using v(2) by (simp add: column_setitem)
    have d_names: "set (column_names d) = insert n (set (column_names df))"
      using v(2) by (simp add: names_setitem)
    have wf_d: "wf_df d" if "wf_df df" using that v wf_setitem by blast
    have "Suc k \<le> length (s # ss)" using k(1) by simp
    moreover have "e = None \<longleftrightarrow> Suc k = length (s # ss)" using k(2) by simp
    moreover have "run (take (Suc k) (s # ss)) df = (None, out)" using Inr k(3) by simp
    moreover have "\<forall>e'. e = Some e' \<longrightarrow> ((s # ss) ! Suc k) out = Inl e'" using k(4) by simp
    moreover have "nrows out = nrows df" using k(5) d_nrows by simp
    moreover have "\<forall>m. m \<notin> set (take (Suc k) (n # ns)) \<longrightarrow> column out m = column df m"
      using k(6) d_col by simp
    moreover have "set (column_names out) = set (column_names df) \<union> set (take (Suc k) (n # ns))"
      using k(7) d_names by auto
    moreover have "wf_df df \<longrightarrow> wf_df out
        \<and> (\<forall>m\<in>set (take (Suc k) (n # ns)). \<exists>c. column out m = Some c \<and> length c = nrows df)"
    proof
      assume wf: "wf_df df"
      then have fit: "fits (nrows df) v" using v(1) by simp
      from wf_d [OF wf] k(8) have out: "wf_df out"
        "\<forall>m\<in>set (take k ns). \<exists>c. column out m = Some c \<and> length c = nrows df"
        using d_nrows by simp_all
      have "\<exists>c. column out n = Some c \<and> length c = nrows df"
      proof (cases "n \<in> set (take k ns)")
        case True
        with out(2) show ?thesis by blast
      next
        case False
        with k(6) d_col have "column out n = Some (broadcast (nrows df) v)" by simp
        with fit show ?thesis by (simp add: length_broadcast)
      qed
      with out show "wf_df out
        \<and> (\<forall>m\<in>set (take (Suc k) (n # ns)). \<exists>c. column out m = Some c \<and> length c = nrows df)"
        by simp
    qed
    ultimately show ?thesis by blast
  qed
qed

lemma derive_assigns: "list_all2 assigns derive_stmts derived_fields"
  by (simp add: derive_stmts_def derived_fields_def assigns_speed_ms assigns_total_g
      assigns_time_minutes assigns_time_relative)

lemma derive_csv_assigns: "list_all2 assigns derive_csv_stmts derived_fields"
  by (simp add: derive_csv_stmts_def derived_fields_def assigns_speed_ms assigns_total_g_csv
      assigns_time_minutes assigns_time_relative)

section \<open>A successful derivation\<close>

lemma derive_success:
  "derive df = (None, out) \<longleftrightarrow>
     (\<exists>kmh ts v1 la2 lo2 s v2 v3 t0 v4.
        column df ''speed_kmh'' = Some kmh \<and> truediv (Series kmh) 3.6 = Inr v1
      \<and> pow2 (get_default df ''lateral_g'' (Int64 0)) = Inr la2
      \<and> pow2 (get_default df ''longitudinal_g'' (Int64 0)) = Inr lo2
      \<and> add la2 lo2 = Inr s \<and> pow_half s = Inr v2
      \<and> column df ''time_s'' = Some ts \<and> truediv (Series ts) 60 = Inr v3
      \<and> iloc0 ts = Inr t0 \<and> sub (Series ts) (Scalar t0) = Inr v4
      \<and> out = setitem (setitem (setitem (setitem df ''speed_ms'' v1) ''total_g'' v2)
                  ''time_minutes'' v3) ''time_relative'' v4)"
  (is "?L \<longleftrightarrow> ?R")
proof
  assume ?L
  then obtain d1 d2 d3 where st: "assign_speed_ms df = Inr d1" "assign_total_g d1 = Inr d2"
    "assign_time_minutes d2 = Inr d3" "assign_time_relative d3 = Inr out"
    unfolding derive_def derive_stmts_def run_None_4 by blast
  from st(1) obtain kmh v1 where 1: "column df ''speed_kmh'' = Some kmh"
    "truediv (Series kmh) 3.6 = Inr v1" "d1 = setitem df ''speed_ms'' v1"
    unfolding assign_speed_ms_Inr by blast
  from st(2) obtain la2 lo2 s v2 where 2: "pow2 (get_default d1 ''lateral_g'' (Int64 0)) = Inr la2"
    "pow2 (get_default d1 ''longitudinal_g'' (Int64 0)) = Inr lo2"
    "add la2 lo2 = Inr s" "pow_half s = Inr v2" "d2 = setitem d1 ''total_g'' v2"
    unfolding assign_total_g_Inr by blast
  from st(3) obtain ts v3 where 3: "column d2 ''time_s'' = Some ts"
    "truediv (Series ts) 60 = Inr v3" "d3 = setitem d2 ''time_minutes'' v3"
    unfolding assign_time_minutes_Inr by blast
  from st(4) obtain ts' t0 v4 where 4: "column d3 ''time_s'' = Some ts'" "iloc0 ts' = Inr t0"
    "sub (Series ts') (Scalar t0) = Inr v4" "out = setitem d3 ''time_relative'' v4"
    unfolding assign_time_relative_Inr by blast
  have g: "get_default d1 ''lateral_g'' (Int64 0) = get_default df ''lateral_g'' (Int64 0)"
    "get_default d1 ''longitudinal_g'' (Int64 0) = get_default df ''longitudinal_g'' (Int64 0)"
    using 1(3) by (simp_all add: get_default_def column_setitem)
  have t: "column df ''time_s'' = Some ts" "ts' = ts"
    using 3(1) 4(1) 1(3) 2(5) 3(3) by (simp_all add: column_setitem)
  show ?R using 1 2 3 4 g t by auto
next
  assume ?R
  then obtain kmh ts v1 la2 lo2 s v2 v3 t0 v4 where r:
    "column df ''speed_kmh'' = Some kmh" "truediv (Series kmh) 3.6 = Inr v1"
    "pow2 (get_default df ''lateral_g'' (Int64 0)) = Inr la2"
    "pow2 (get_default df ''longitudinal_g'' (Int64 0)) = Inr lo2"
    "add la2 lo2 = Inr s" "pow_half s = Inr v2"
    "column df ''time_s'' = Some ts" "truediv (Series ts) 60 = Inr v3"
    "iloc0 ts = Inr t0" "sub (Series ts) (Scalar t0) = Inr v4"
    "out = setitem (setitem (setitem (setitem df ''speed_ms'' v1) ''total_g'' v2)
                  ''time_minutes'' v3) ''time_relative'' v4"
    by blast
  define d1 where "d1 = setitem df ''speed_ms'' v1"
  define d2 where "d2 = setitem d1 ''total_g'' v2"
  define d3 where "d3 = setitem d2 ''time_minutes'' v3"
  have 1: "assign_speed_ms df = Inr d1"
    unfolding assign_speed_ms_Inr d1_def using r(1,2) by blast
  have g: "get_default d1 ''lateral_g'' (Int64 0) = get_default df ''lateral_g'' (Int64 0)"
    "get_default d1 ''longitudinal_g'' (Int64 0) = get_default df ''longitudinal_g'' (Int64 0)"
    by (simp_all add: d1_def get_default_def column_setitem)
  have 2: "assign_total_g d1 = Inr d2"
    unfolding assign_total_g_Inr d2_def g using r(3,4,5,6) by blast
  have "column d2 ''time_s'' = Some ts"
    using r(7) by (simp add: d2_def d1_def column_setitem)
  then have 3: "assign_time_minutes d2 = Inr d3"
    unfolding assign_time_minutes_Inr d3_def using r(8) by blast
  have "column d3 ''time_s'' = Some ts"
    using r(7) by (simp add: d3_def d2_def d1_def column_setitem)
  moreover have "out = setitem d3 ''time_relative'' v4"
    using r(11) by (simp add: d3_def d2_def d1_def)
  ultimately have 4: "assign_time_relative d3 = Inr out"
    unfolding assign_time_relative_Inr using r(9,10) by blast
  show ?L unfolding derive_def derive_stmts_def run_None_4 using 1 2 3 4 by blast
qed

lemma cell_at_setitem:
  "cell_at (setitem df n v) m i =
     (if m = n then (if i < length (broadcast (nrows df) v) then Some (broadcast (nrows df) v ! i) else None)
      else cell_at df m i)"
  by (simp add: cell_at_def column_setitem)

lemma cell_at_column:
  "wf_df df \<Longrightarrow> column df n = Some c \<Longrightarrow> i < nrows df \<Longrightarrow> cell_at df n i = Some (c ! i)"
  by (simp add: cell_at_def wf_column_length)

lemma broadcast_Series: "broadcast n (Series xs) = xs"
  by (simp add: broadcast_def)

lemma broadcast_Scalar_nth: "i < n \<Longrightarrow> broadcast n (Scalar a) ! i = a"
  by (simp add: broadcast_def)

text \<open>What a successful derivation puts into each derived field of record i.\<close>

lemma derive_fields:
  assumes wf: "wf_df df" and ok: "derive df = (None, out)" and i: "i < nrows df"
  shows "\<exists>k t ti m tm r la2 lo2 s g.
           cell_at df ''speed_kmh'' i = Some k \<and> cell_at df ''time_s'' 0 = Some t
         \<and> cell_at df ''time_s'' i = Some ti
         \<and> cell_at out ''speed_ms'' i = Some m \<and> truediv_cell 3.6 k = Inr m
         \<and> cell_at out ''time_minutes'' i = Some tm \<and> truediv_cell 60 ti = Inr tm
         \<and> cell_at out ''time_relative'' i = Some r \<and> sub_cell ti t = Inr r
         \<and> pow2_cell (broadcast (nrows df) (get_default df ''lateral_g'' (Int64 0)) ! i) = Inr la2
         \<and> pow2_cell (broadcast (nrows df) (get_default df ''longitudinal_g'' (Int64 0)) ! i) = Inr lo2
         \<and> add_cell la2 lo2 = Inr s \<and> pow_half_cell s = Inr g
         \<and> cell_at out ''total_g'' i = Some g"
proof -
  let ?n = "nrows df"
  from ok obtain kmh ts v1 la2 lo2 s v2 v3 t0 v4 where r:
    "column df ''speed_kmh'' = Some kmh" "truediv (Series kmh) 3.6 = Inr v1"
    "pow2 (get_default df ''lateral_g'' (Int64 0)) = Inr la2"
    "pow2 (get_default df ''longitudinal_g'' (Int64 0)) = Inr lo2"
    "add la2 lo2 = Inr s" "pow_half s = Inr v2"
    "column df ''time_s'' = Some ts" "truediv (Series ts) 60 = Inr v3"
    "iloc0 ts = Inr t0" "sub (Series ts) (Scalar t0) = Inr v4"
    "out = setitem (setitem (setitem (setitem df ''speed_ms'' v1) ''total_g'' v2)
                  ''time_minutes'' v3) ''time_relative'' v4"
    unfolding derive_success by blast
  have fk: "fits ?n (Series kmh)" and ft: "fits ?n (Series ts)"
    using wf r(1,7) by (simp_all add: wf_column_length)
  have t0: "t0 = ts ! 0" using r(9) by (simp add: iloc0_Inr)
  have ck: "cell_at df ''speed_kmh'' i = Some (kmh ! i)"
    and ct: "cell_at df ''time_s'' i = Some (ts ! i)"
    and ct0: "cell_at df ''time_s'' 0 = Some (ts ! 0)"
    using wf r(1,7) i by (simp_all add: cell_at_column)
  from unary_Inr [OF r(2) [unfolded truediv_def] fk] i
  have v1: "fits ?n v1" "truediv_cell 3.6 (kmh ! i) = Inr (broadcast ?n v1 ! i)"
    by (simp_all add: broadcast_Series)
  from unary_Inr [OF r(8) [unfolded truediv_def] ft] i
  have v3: "fits ?n v3" "truediv_cell 60 (ts ! i) = Inr (broadcast ?n v3 ! i)"
    by (simp_all add: broadcast_Series)
  have fs: "fits ?n (Scalar t0)" by simp
  from binary_Inr [OF r(10) [unfolded sub_def] ft fs] i
  have v4: "fits ?n v4" "sub_cell (ts ! i) t0 = Inr (broadcast ?n v4 ! i)"
    by (simp_all add: broadcast_Series broadcast_Scalar_nth)
  have fa: "fits ?n (get_default df ''lateral_g'' (Int64 0))"
    and fb: "fits ?n (get_default df ''longitudinal_g'' (Int64 0))"
    using wf by (simp_all add: fits_get_default)
  from unary_Inr [OF r(3) [unfolded pow2_def] fa] i
  have la2: "fits ?n la2"
    "pow2_cell (broadcast ?n (get_default df ''lateral_g'' (Int64 0)) ! i) = Inr (broadcast ?n la2 ! i)"
    by simp_all
  from unary_Inr [OF r(4) [unfolded pow2_def] fb] i
  have lo2: "fits ?n lo2"
    "pow2_cell (broadcast ?n (get_default df ''longitudinal_g'' (Int64 0)) ! i) = Inr (broadcast ?n lo2 ! i)"
    by simp_all
  from binary_Inr [OF r(5) [unfolded add_def] la2(1) lo2(1)] i
  have s: "fits ?n s" "add_cell (broadcast ?n la2 ! i) (broadcast ?n lo2 ! i) = Inr (broadcast ?n s ! i)"
    by simp_all
  from unary_Inr [OF r(6) [unfolded pow_half_def] s(1)] i
  have v2: "fits ?n v2" "pow_half_cell (broadcast ?n s ! i) = Inr (broadcast ?n v2 ! i)"
    by simp_all
  have o1: "cell_at out ''speed_ms'' i = Some (broadcast ?n v1 ! i)"
    and o2: "cell_at out ''total_g'' i = Some (broadcast ?n v2 ! i)"
    and o3: "cell_at out ''time_minutes'' i = Some (broadcast ?n v3 ! i)"
    and o4: "cell_at out ''time_relative'' i = Some (broadcast ?n v4 ! i)"
    using i v1(1) v2(1) v3(1) v4(1)
    by (simp_all add: r(11) cell_at_setitem nrows_setitem length_broadcast)
  show ?thesis
    using ck ct ct0 v1(2) v3(2) v4(2) [unfolded t0] la2(2) lo2(2) s(2) v2(2) o1 o2 o3 o4
    by blast
qed

section \<open>The sample tables, evaluated\<close>

text \<open>Numbers below \<open>2\<^sup>6\<^sup>3\<close> in magnitude are far from the overflow threshold.\<close>

lemma to_double_small: "\<bar>r\<bar> < 2 ^ 63 \<Longrightarrow> to_double r = Fin r"
  using int64_below_threshold by (intro to_double_Fin) simp

lemma valid_small: "\<bar>r\<bar> < 2 ^ 63 \<Longrightarrow> valid_double (Fin r)"
  using int64_below_threshold by simp

lemmas stmt_defs = assign_speed_ms_def assign_total_g_def assign_total_g_csv_def
  assign_time_minutes_def assign_time_relative_def getitem_def get_default_def column_def
  setitem_def broadcast_def iloc0_def truediv_def pow2_def pow_half_def add_def sub_def
  to_double_small of_int64_def

lemma derive_telemetry_data: "derive telemetry_data = (None, telemetry_derived)"
  by (simp add: derive_def derive_stmts_def telemetry_data_def telemetry_derived_def stmt_defs
      numeral_eq_Suc)

lemma wf_telemetry_data: "wf_df telemetry_data"
  by (simp add: wf_df_def telemetry_data_def)

lemma derive_csv_sensor_data: "derive_csv sensor_data = (None, sensor_derived)"
  by (simp add: derive_csv_def derive_csv_stmts_def sensor_data_def sensor_derived_def stmt_defs)

lemma wf_sensor_data: "wf_df sensor_data"
  by (simp add: wf_df_def sensor_data_def valid_small del: valid_double.simps(1))

section \<open>What the arithmetic gives on numbers in range\<close>


lemma finite_value_as_double: "finite_value c = Some x \<Longrightarrow> as_double c = Fin x \<and> numeric c"
  by (cases c rule: finite_value.cases) auto


lemma sub_self_finite:
  assumes "finite_value c = Some x"
  shows "\<exists>r. sub_cell c c = Inr r \<and> finite_value r = Some 0"
  using assms threshold_pos
  by (cases c rule: finite_value.cases) (simp_all add: to_double_def of_int64_def)

lemma sub_self_not_finite:
  assumes "c \<in> {Float64 PInf, Float64 NInf, Float64 NaN}"
  shows "sub_cell c c = Inr (Float64 NaN)"
  using assms by auto

lemma sub_NaN:
  assumes "sub_cell a b = Inr r" "a = Float64 NaN \<or> b = Float64 NaN"
  shows "r = Float64 NaN"
  using assms by (cases a; cases b; cases "as_double a"; cases "as_double b") auto



lemma sub_finite:
  assumes "finite_value a = Some u" and "finite_value b = Some v"
    and "is_int64 a \<and> is_int64 b \<longrightarrow> - (2 ^ 63) \<le> u - v \<and> u - v < 2 ^ 63"
    and "\<bar>u - v\<bar> < overflow_threshold"
  shows "\<exists>s. sub_cell a b = Inr s \<and> finite_value s = Some (u - v)"
proof (cases "is_int64 a \<and> is_int64 b")
  case True
  then obtain x y where xy: "a = Int64 x" "b = Int64 y"
    by (cases a; cases b) auto
  with assms(1,2) have uv: "u = real_of_int (sint x)" "v = real_of_int (sint y)"
    by (simp_all add: of_int64_def)
  with assms(3) True have "real_of_int (- (2 ^ 63)) \<le> real_of_int (sint x - sint y)"
    "real_of_int (sint x - sint y) < real_of_int (2 ^ 63)" by simp_all
  then have "- (2 ^ 63) \<le> sint x - sint y" "sint x - sint y < 2 ^ 63"
    by (simp_all only: of_int_le_iff of_int_less_iff)
  then have "sint (x - y) = sint x - sint y" by (rule sint_sub_exact)
  with xy uv show ?thesis by (simp add: of_int64_def)
next
  case False
  from assms(1,2) have d: "as_double a = Fin u" "as_double b = Fin v" "numeric a" "numeric b"
    using finite_value_as_double by blast+
  have "to_double (u - v) = Fin (u - v)" using assms(4) by (rule to_double_Fin)
  with d False show ?thesis by (cases a; cases b) simp_all
qed





section \<open>The derived fields\<close>

lemma either_derive: "derive df = (None, out) \<or> derive_csv df = (None, out) \<Longrightarrow> derive df = (None, out)"
  using derive_csv_imp_derive by blast



text \<open>
  Claim C1, as amended. After a successful derivation of a well-formed table, the field
  \<^verbatim>\<open>time_relative\<close> of record \<open>i\<close> is the result of subtracting the \<^verbatim>\<open>time_s\<close> of the first
  record from the \<^verbatim>\<open>time_s\<close> of record \<open>i\<close>, as the cells subtract: the difference of the
  two numbers when they are integers or finite floats and the difference stays in range,
  the difference wrapped to 64 bits for two integers in any case, and NaN when one of
  them is NaN. The first record's \<^verbatim>\<open>time_relative\<close> is 0 when its \<^verbatim>\<open>time_s\<close> is an integer
  or a finite float, and NaN when it is an infinity or NaN.
\<close>

theorem time_relative_of_record:
  assumes "wf_df df" and "derive df = (None, out) \<or> derive_csv df = (None, out)"
    and "i < nrows df"
  shows "\<exists>t ti r r0.
           cell_at df ''time_s'' 0 = Some t \<and> cell_at df ''time_s'' i = Some ti
         \<and> cell_at out ''time_relative'' i = Some r \<and> cell_at out ''time_relative'' 0 = Some r0
         \<and> sub_cell ti t = Inr r
         \<and> (\<forall>x y. finite_value ti = Some x \<and> finite_value t = Some y \<and> difference_in_range ti t
               \<longrightarrow> finite_value r = Some (x - y))
         \<and> (\<forall>a b. ti = Int64 a \<and> t = Int64 b \<longrightarrow> r = Int64 (a - b))
         \<and> (ti = Float64 NaN \<or> t = Float64 NaN \<longrightarrow> r = Float64 NaN)
         \<and> (\<forall>y. finite_value t = Some y \<longrightarrow> finite_value r0 = Some 0)
         \<and> (t \<in> {Float64 PInf, Float64 NInf, Float64 NaN} \<longrightarrow> r0 = Float64 NaN)"
proof -
  have ok: "derive df = (None, out)" using assms(2) by (rule either_derive)
  from derive_fields [OF assms(1) ok assms(3)]
  obtain t ti r where f: "cell_at df ''time_s'' 0 = Some t" "cell_at df ''time_s'' i = Some ti"
    "cell_at out ''time_relative'' i = Some r" "sub_cell ti t = Inr r"
    by blast
  have zero: "0 < nrows df" using assms(3) by simp
  from derive_fields [OF assms(1) ok zero] f(1)
  obtain r0 where g: "cell_at out ''time_relative'' 0 = Some r0" "sub_cell t t = Inr r0"
    by auto
  have 1: "finite_value r = Some (x - y)"
    if "finite_value ti = Some x \<and> finite_value t = Some y \<and> difference_in_range ti t" for x y
  proof -
    from that have fv: "finite_value ti = Some x" "finite_value t = Some y"
      and d: "difference_in_range ti t" by simp_all
    from d fv have "is_int64 ti \<and> is_int64 t \<longrightarrow> - (2 ^ 63) \<le> x - y \<and> x - y < 2 ^ 63"
      "\<bar>x - y\<bar> < overflow_threshold"
      by (simp_all add: difference_in_range_def)
    from sub_finite [OF fv this] f(4) show ?thesis by auto
  qed
  have 2: "\<forall>a b. ti = Int64 a \<and> t = Int64 b \<longrightarrow> r = Int64 (a - b)"
    using f(4) by auto
  have 3: "ti = Float64 NaN \<or> t = Float64 NaN \<longrightarrow> r = Float64 NaN"
    using sub_NaN [OF f(4)] by blast
  have 4: "\<forall>y. finite_value t = Some y \<longrightarrow> finite_value r0 = Some 0"
    using sub_self_finite [of t] g(2) by auto
  have 5: "t \<in> {Float64 PInf, Float64 NInf, Float64 NaN} \<longrightarrow> r0 = Float64 NaN"
    using sub_self_not_finite [of t] g(2) by auto
  from f g(1) 1 2 3 4 5 show ?thesis by blast
qed

text \<open>
  The second record of \<open>sensor_data\<close>, at 6.5 s when the first is at 5 s, and the first
  record itself.
\<close>

theorem time_relative_of_record_witness:
  "wf_df sensor_data \<and> derive_csv sensor_data = (None, sensor_derived)
   \<and> 1 < nrows sensor_data
   \<and> cell_at sensor_data ''time_s'' 0 = Some (Float64 (Fin 5))
   \<and> cell_at sensor_data ''time_s'' 1 = Some (Float64 (Fin 6.5))
   \<and> difference_in_range (Float64 (Fin 6.5)) (Float64 (Fin 5))
   \<and> (\<exists>r. cell_at sensor_derived ''time_relative'' 1 = Some r \<and> finite_value r = Some (6.5 - 5))
   \<and> (\<exists>r0. cell_at sensor_derived ''time_relative'' 0 = Some r0 \<and> finite_value r0 = Some 0)"
proof -
  have h3: "1 < nrows sensor_data" by (simp add: sensor_data_def)
  have c: "cell_at sensor_data ''time_s'' 0 = Some (Float64 (Fin 5))"
    "cell_at sensor_data ''time_s'' 1 = Some (Float64 (Fin 6.5))"
    by (simp_all add: cell_at_def column_def sensor_data_def)
  have "\<bar>6.5 - 5 :: real\<bar> < 2 ^ 63" by simp
  with int64_below_threshold have "\<bar>6.5 - 5 :: real\<bar> < overflow_threshold"
    by linarith
  then have d: "difference_in_range (Float64 (Fin 6.5)) (Float64 (Fin 5))"
    by (simp add: difference_in_range_def)
  from time_relative_of_record [OF wf_sensor_data disjI2 [OF derive_csv_sensor_data] h3]
  obtain t ti r r0 where w: "cell_at sensor_data ''time_s'' 0 = Some t"
    "cell_at sensor_data ''time_s'' 1 = Some ti"
    "cell_at sensor_derived ''time_relative'' 1 = Some r"
    "cell_at sensor_derived ''time_relative'' 0 = Some r0"
    "\<forall>x y. finite_value ti = Some x \<and> finite_value t = Some y \<and> difference_in_range ti t
               \<longrightarrow> finite_value r = Some (x - y)"
    "\<forall>y. finite_value t = Some y \<longrightarrow> finite_value r0 = Some 0"
    by blast
  from w(1,2) c have tt: "t = Float64 (Fin 5)" "ti = Float64 (Fin 6.5)" by simp_all
  have fv: "finite_value ti = Some 6.5" "finite_value t = Some 5" by (simp_all add: tt)
  from w(5) fv d tt have "finite_value r = Some (6.5 - 5)" by blast
  moreover from w(6) fv(2) have "finite_value r0 = Some 0" by blast
  ultimately show ?thesis
    using wf_sensor_data derive_csv_sensor_data h3 c d w(3,4) by blast
qed

text \<open>
  Claim C1 as stated fails: when the first \<^verbatim>\<open>time_s\<close> is NaN the derivation succeeds
  and the first \<^verbatim>\<open>time_relative\<close> is NaN, not 0.
\<close>

theorem time_relative_first_counterexample:
  "wf_df time_nan_data \<and> 0 < nrows time_nan_data \<and> fst (derive time_nan_data) = None
   \<and> cell_at time_nan_data ''time_s'' 0 = Some (Float64 NaN)
   \<and> cell_at (snd (derive time_nan_data)) ''time_relative'' 0 = Some (Float64 NaN)"
  by (simp add: wf_df_def derive_def derive_stmts_def time_nan_data_def stmt_defs cell_at_def
      valid_small del: valid_double.simps(1))






section \<open>The shape of the derived table\<close>

lemma either_run:
  assumes "derive df = (e, out) \<or> derive_csv df = (e, out)"
  obtains ss where "list_all2 assigns ss derived_fields" "run ss df = (e, out)" "length ss = 4"
  using assms derive_assigns derive_csv_assigns
  unfolding derive_def derive_csv_def
  by (auto simp: derive_stmts_def derive_csv_stmts_def)

text \<open>
  Claim C6. A successful derivation of a well-formed table, which then has at least one
  row, gives a well-formed table with the same number of rows; its columns are those of
  the input and the four derived ones; every column that is not a derived one is the
  input's column, cell by cell in the same order; each derived column has a cell for
  every row.
\<close>

theorem derived_table_shape:
  assumes "wf_df df" and "derive df = (None, out) \<or> derive_csv df = (None, out)"
  shows "0 < nrows df \<and> nrows out = nrows df \<and> wf_df out
       \<and> set (column_names out) = set (column_names df) \<union> set derived_fields
       \<and> (\<forall>n. n \<notin> set derived_fields \<longrightarrow> column out n = column df n)
       \<and> (\<forall>n i. n \<notin> set derived_fields \<longrightarrow> cell_at out n i = cell_at df n i)
       \<and> (\<forall>n\<in>set derived_fields. \<exists>c. column out n = Some c \<and> length c = nrows df)"
proof -
  from assms(2) obtain ss where ss: "list_all2 assigns ss derived_fields"
    "run ss df = (None, out)" "length ss = 4"
    by (rule either_run)
  have len: "length derived_fields = 4" by (simp add: derived_fields_def)
  from run_assigns [OF ss(1,2)] ss(3) len assms(1)
  have r: "nrows out = nrows df" "wf_df out"
    "set (column_names out) = set (column_names df) \<union> set derived_fields"
    "\<forall>n. n \<notin> set derived_fields \<longrightarrow> column out n = column df n"
    "\<forall>n\<in>set derived_fields. \<exists>c. column out n = Some c \<and> length c = nrows df"
    by auto
  from r(4) have c: "\<forall>n i. n \<notin> set derived_fields \<longrightarrow> cell_at out n i = cell_at df n i"
    by (simp add: cell_at_def)
  have ok: "derive df = (None, out)" using assms(2) derive_csv_imp_derive by blast
  then obtain ts t0 where "column df ''time_s'' = Some ts" "iloc0 ts = Inr t0"
    unfolding derive_success by blast
  then have "length ts = nrows df" "ts \<noteq> []"
    using assms(1) wf_column_length [of df "''time_s''" ts] by (simp_all add: iloc0_Inr)
  then have "0 < nrows df" by (cases ts) auto
  with r c show ?thesis by blast
qed

text \<open>The table of lines 42 to 49 and its column \<^verbatim>\<open>rpm\<close>.\<close>

theorem derived_table_shape_witness:
  "wf_df telemetry_data \<and> derive telemetry_data = (None, telemetry_derived)
   \<and> nrows telemetry_derived = nrows telemetry_data
   \<and> set (column_names telemetry_derived) = set (column_names telemetry_data) \<union> set derived_fields
   \<and> ''rpm'' \<notin> set derived_fields
   \<and> column telemetry_derived ''rpm'' = column telemetry_data ''rpm''
   \<and> ''total_g'' \<in> set derived_fields
   \<and> (\<exists>c. column telemetry_derived ''total_g'' = Some c \<and> length c = nrows telemetry_data)"
proof -
  have n: "''rpm'' \<notin> set derived_fields" "''total_g'' \<in> set derived_fields"
    by (simp_all add: derived_fields_def)
  from derived_table_shape [OF wf_telemetry_data disjI1 [OF derive_telemetry_data]] n
    wf_telemetry_data derive_telemetry_data
  show ?thesis by blast
qed

text \<open>
  Claim C8. Whether the derivation succeeds or raises, the table it leaves has the raw
  columns (and every other column that is not a derived one) exactly as the input has
  them, the same number of rows, all the columns of the input, and no new column except
  derived ones.
\<close>

theorem raw_fields_unchanged:
  assumes "derive df = (e, out) \<or> derive_csv df = (e, out)"
  shows "(\<forall>n\<in>set raw_fields. column out n = column df n)
       \<and> (\<forall>n. n \<notin> set derived_fields \<longrightarrow> column out n = column df n)
       \<and> nrows out = nrows df
       \<and> set (column_names df) \<subseteq> set (column_names out)
       \<and> set (column_names out) \<subseteq> set (column_names df) \<union> set derived_fields"
proof -
  from assms obtain ss where ss: "list_all2 assigns ss derived_fields"
    "run ss df = (e, out)" "length ss = 4"
    by (rule either_run)
  from run_assigns [OF ss(1,2)] obtain k where k: "nrows out = nrows df"
    "\<forall>n. n \<notin> set (take k derived_fields) \<longrightarrow> column out n = column df n"
    "set (column_names out) = set (column_names df) \<union> set (take k derived_fields)"
    by blast
  have sub: "set (take k derived_fields) \<subseteq> set derived_fields" by (rule set_take_subset)
  have disj: "\<forall>n\<in>set raw_fields. n \<notin> set derived_fields"
    by (simp add: raw_fields_def derived_fields_def)
  from k(2) sub have 2: "\<forall>n. n \<notin> set derived_fields \<longrightarrow> column out n = column df n" by blast
  with disj have 1: "\<forall>n\<in>set raw_fields. column out n = column df n" by blast
  from k(3) sub have 3: "set (column_names df) \<subseteq> set (column_names out)"
    "set (column_names out) \<subseteq> set (column_names df) \<union> set derived_fields" by blast+
  from 1 2 3 k(1) show ?thesis by blast
qed

text \<open>The table of lines 42 to 49.\<close>

theorem raw_fields_unchanged_witness:
  "derive telemetry_data = (None, telemetry_derived)
   \<and> ''speed_kmh'' \<in> set raw_fields
   \<and> column telemetry_derived ''speed_kmh'' = column telemetry_data ''speed_kmh''
   \<and> nrows telemetry_derived = nrows telemetry_data
   \<and> set (column_names telemetry_derived) \<subseteq> set (column_names telemetry_data) \<union> set derived_fields"
proof -
  have n: "''speed_kmh'' \<in> set raw_fields" by (simp add: raw_fields_def)
  from raw_fields_unchanged [OF disjI1 [OF derive_telemetry_data]] derive_telemetry_data n
  show ?thesis by blast
qed

text \<open>
  Claim C7, as amended. The derivation of a well-formed table completes some number
  \<open>k\<close> of its four assignments, all four exactly when it succeeds. When it reports an
  error, that is the error the next assignment raises, and the table it leaves is the
  one the first \<open>k\<close> assignments produced: it holds the first \<open>k\<close> derived columns, each
  with a cell for every row, and is the input everywhere else. Nothing is rolled back.
\<close>

theorem derive_stops_at_failing_assignment:
  assumes "wf_df df"
  shows "(\<forall>e out. derive df = (e, out) \<longrightarrow>
            (\<exists>k\<le>4. (e = None \<longleftrightarrow> k = 4)
               \<and> run (take k derive_stmts) df = (None, out)
               \<and> (\<forall>err. e = Some err \<longrightarrow> (derive_stmts ! k) out = Inl err)
               \<and> (\<forall>n\<in>set (take k derived_fields).
                     \<exists>c. column out n = Some c \<and> length c = nrows df)
               \<and> (\<forall>n. n \<notin> set (take k derived_fields) \<longrightarrow> column out n = column df n)))
       \<and> (\<forall>e out. derive_csv df = (e, out) \<longrightarrow>
            (\<exists>k\<le>4. (e = None \<longleftrightarrow> k = 4)
               \<and> run (take k derive_csv_stmts) df = (None, out)
               \<and> (\<forall>err. e = Some err \<longrightarrow> (derive_csv_stmts ! k) out = Inl err)
               \<and> (\<forall>n\<in>set (take k derived_fields).
                     \<exists>c. column out n = Some c \<and> length c = nrows df)
               \<and> (\<forall>n. n \<notin> set (take k derived_fields) \<longrightarrow> column out n = column df n)))"
proof -
  have "\<exists>k\<le>4. (e = None \<longleftrightarrow> k = 4)
               \<and> run (take k ss) df = (None, out)
               \<and> (\<forall>err. e = Some err \<longrightarrow> (ss ! k) out = Inl err)
               \<and> (\<forall>n\<in>set (take k derived_fields).
                     \<exists>c. column out n = Some c \<and> length c = nrows df)
               \<and> (\<forall>n. n \<notin> set (take k derived_fields) \<longrightarrow> column out n = column df n)"
    if "list_all2 assigns ss derived_fields" "length ss = 4" "run ss df = (e, out)"
    for ss e out
    using run_assigns [OF that(1,3)] that(2) assms by auto
  from this [OF derive_assigns] this [OF derive_csv_assigns]
  show ?thesis
    unfolding derive_def derive_csv_def
    by (simp add: derive_stmts_def derive_csv_stmts_def)
qed

lemma derive_no_time_data: "derive no_time_data = (Some (KeyError ''time_s''), no_time_partial)"
  by (simp add: derive_def derive_stmts_def no_time_data_def no_time_partial_def stmt_defs
      numeral_eq_Suc)

text \<open>
  A table without \<^verbatim>\<open>time_s\<close>: two assignments complete and the third raises on the table
  they left.
\<close>

theorem derive_stops_at_failing_assignment_witness:
  "wf_df no_time_data \<and> derive no_time_data = (Some (KeyError ''time_s''), no_time_partial)
   \<and> (\<exists>k\<le>4. k \<noteq> 4
         \<and> run (take k derive_stmts) no_time_data = (None, no_time_partial)
         \<and> (derive_stmts ! k) no_time_partial = Inl (KeyError ''time_s'')
         \<and> (\<forall>n\<in>set (take k derived_fields).
               \<exists>c. column no_time_partial n = Some c \<and> length c = nrows no_time_data)
         \<and> (\<forall>n. n \<notin> set (take k derived_fields)
               \<longrightarrow> column no_time_partial n = column no_time_data n))"
proof -
  have wf: "wf_df no_time_data" by (simp add: wf_df_def no_time_data_def)
  from derive_stops_at_failing_assignment [OF wf] derive_no_time_data
  have "\<exists>k\<le>4. (Some (KeyError ''time_s'') = None \<longleftrightarrow> k = 4)
         \<and> run (take k derive_stmts) no_time_data = (None, no_time_partial)
         \<and> (\<forall>err. Some (KeyError ''time_s'') = Some err
               \<longrightarrow> (derive_stmts ! k) no_time_partial = Inl err)
         \<and> (\<forall>n\<in>set (take k derived_fields).
               \<exists>c. column no_time_partial n = Some c \<and> length c = nrows no_time_data)
         \<and> (\<forall>n. n \<notin> set (take k derived_fields)
               \<longrightarrow> column no_time_partial n = column no_time_data n)"
    by blast
  then have "\<exists>k\<le>4. k \<noteq> 4
         \<and> run (take k derive_stmts) no_time_data = (None, no_time_partial)
         \<and> (derive_stmts ! k) no_time_partial = Inl (KeyError ''time_s'')
         \<and> (\<forall>n\<in>set (take k derived_fields).
               \<exists>c. column no_time_partial n = Some c \<and> length c = nrows no_time_data)
         \<and> (\<forall>n. n \<notin> set (take k derived_fields)
               \<longrightarrow> column no_time_partial n = column no_time_data n)"
    by auto
  with wf derive_no_time_data show ?thesis by blast
qed

text \<open>
  Claim C7 as stated fails: on a table without \<^verbatim>\<open>time_s\<close> the derivation raises
  KeyError and leaves a table with \<^verbatim>\<open>speed_ms\<close> and \<^verbatim>\<open>total_g\<close> but without
  \<^verbatim>\<open>time_minutes\<close> and \<^verbatim>\<open>time_relative\<close>.
\<close>

theorem partial_derivation_counterexample:
  "fst (derive no_time_data) = Some (KeyError ''time_s'')
   \<and> column no_time_data ''speed_ms'' = None
   \<and> column (snd (derive no_time_data)) ''speed_ms''
       = Some [Float64 (Fin (10 / 3.6)), Float64 (Fin (35 / 3.6))]
   \<and> column (snd (derive no_time_data)) ''total_g'' = Some [Float64 (Fin 0), Float64 (Fin 0)]
   \<and> column (snd (derive no_time_data)) ''time_minutes'' = None
   \<and> column (snd (derive no_time_data)) ''time_relative'' = None"
  by (simp add: derive_no_time_data) (simp add: column_def no_time_data_def no_time_partial_def)

section \<open>When the derivation raises\<close>

lemma numeric_get_default:
  "numeric_op (get_default df n (Int64 0)) \<longleftrightarrow> \<not> non_numeric df n"
  by (simp add: get_default_def non_numeric_def split: option.splits)

lemma column_setitem_other: "m \<noteq> n \<Longrightarrow> column (setitem d n v) m = column d m"
  by (simp add: column_setitem)

lemma non_numeric_setitem_other: "m \<noteq> n \<Longrightarrow> non_numeric (setitem d n v) m = non_numeric d m"
  by (simp add: non_numeric_def column_setitem)

lemma map_err_fail: "\<exists>x\<in>set xs. \<exists>e. g x = Inl e \<Longrightarrow> \<exists>e. map_err g xs = Inl e"
proof (induction xs)
  case Nil
  then show ?case by simp
next
  case (Cons a xs)
  show ?case
  proof (cases "g a")
    case (Inl e)
    then show ?thesis by simp
  next
    case (Inr y)
    with Cons.prems have "\<exists>x\<in>set xs. \<exists>e. g x = Inl e" by auto
    from Cons.IH [OF this] Inr show ?thesis by auto
  qed
qed

text \<open>What each assignment does, by the columns it reads.\<close>

lemma divide_column_result:
  "\<exists>v. (case getitem d src of
           Inl e \<Rightarrow> Inl e
         | Inr c \<Rightarrow> (case truediv (Series c) k of
                       Inl e \<Rightarrow> Inl e
                     | Inr v \<Rightarrow> Inr (setitem d dst v)))
        = (if column d src = None then Inl (KeyError src)
           else if non_numeric d src then Inl TypeError
           else Inr (setitem d dst v))"
proof (cases "column d src")
  case None
  then show ?thesis by (simp add: getitem_def)
next
  case (Some c)
  show ?thesis
  proof (cases "list_all numeric c")
    case True
    with unary_strict_total [OF strict_truediv, of "Series c" k]
    obtain w where "truediv (Series c) k = Inr w" by (auto simp: truediv_def)
    with Some True show ?thesis by (intro exI [of _ w]) (simp add: getitem_def non_numeric_def)
  next
    case False
    with unary_strict_fail [OF strict_truediv, of "Series c" k]
    have "truediv (Series c) k = Inl TypeError" by (simp add: truediv_def)
    with Some False show ?thesis by (simp add: getitem_def non_numeric_def)
  qed
qed

lemma assign_speed_ms_result:
  "\<exists>v. assign_speed_ms d =
          (if column d ''speed_kmh'' = None then Inl (KeyError ''speed_kmh'')
           else if non_numeric d ''speed_kmh'' then Inl TypeError
           else Inr (setitem d ''speed_ms'' v))"
  unfolding assign_speed_ms_def by (rule divide_column_result)

lemma assign_time_minutes_result:
  "\<exists>v. assign_time_minutes d =
          (if column d ''time_s'' = None then Inl (KeyError ''time_s'')
           else if non_numeric d ''time_s'' then Inl TypeError
           else Inr (setitem d ''time_minutes'' v))"
  unfolding assign_time_minutes_def by (rule divide_column_result)

text \<open>The squares, their sum and its root, on operands already read.\<close>

lemma root_sum_result:
  "\<exists>v. (case pow2 a of
           Inl e \<Rightarrow> Inl e
         | Inr a2 \<Rightarrow>
             (case pow2 b of
                Inl e \<Rightarrow> Inl e
              | Inr b2 \<Rightarrow>
                  (case add a2 b2 of
                     Inl e \<Rightarrow> Inl e
                   | Inr s \<Rightarrow> (case pow_half s of Inl e \<Rightarrow> Inl e | Inr v \<Rightarrow> Inr (f v)))))
        = (if numeric_op a \<and> numeric_op b then Inr (f v) else Inl TypeError)"
proof (cases "numeric_op a")
  case False
  with unary_strict_fail [OF strict_pow2] have "pow2 a = Inl TypeError" by (simp add: pow2_def)
  with False show ?thesis by simp
next
  case a: True
  with unary_strict_total [OF strict_pow2] obtain a2 where a2: "pow2 a = Inr a2"
    by (auto simp: pow2_def)
  show ?thesis
  proof (cases "numeric_op b")
    case False
    with unary_strict_fail [OF strict_pow2] have "pow2 b = Inl TypeError" by (simp add: pow2_def)
    with False a2 show ?thesis by simp
  next
    case b: True
    with unary_strict_total [OF strict_pow2] obtain b2 where b2: "pow2 b = Inr b2"
      by (auto simp: pow2_def)
    have "numeric_op a2" "numeric_op b2"
      using a2 b2 unary_strict_Inr [OF strict_pow2] unfolding pow2_def by blast+
    from binary_strict_total [OF strict2_add this]
    obtain s where s: "add a2 b2 = Inr s" "numeric_op s" by (auto simp: add_def)
    from unary_strict_total [OF strict_pow_half s(2)]
    obtain v where v: "pow_half s = Inr v" by (auto simp: pow_half_def)
    from a b a2 b2 s(1) v show ?thesis by (intro exI [of _ v]) simp
  qed
qed

lemma assign_total_g_result:
  "\<exists>v. assign_total_g d =
          (if non_numeric d ''lateral_g'' \<or> non_numeric d ''longitudinal_g'' then Inl TypeError
           else Inr (setitem d ''total_g'' v))"
proof -
  from root_sum_result [where a = "get_default d ''lateral_g'' (Int64 0)"
      and b = "get_default d ''longitudinal_g'' (Int64 0)" and f = "setitem d ''total_g''"]
  obtain v where "assign_total_g d =
      (if numeric_op (get_default d ''lateral_g'' (Int64 0))
          \<and> numeric_op (get_default d ''longitudinal_g'' (Int64 0))
       then Inr (setitem d ''total_g'' v) else Inl TypeError)"
    unfolding assign_total_g_def by blast
  then show ?thesis by (intro exI [of _ v]) (simp add: numeric_get_default)
qed

lemma assign_total_g_csv_result:
  "\<exists>v. assign_total_g_csv d =
          (if column d ''lateral_g'' = None then Inl (KeyError ''lateral_g'')
           else if non_numeric d ''lateral_g'' then Inl TypeError
           else if column d ''longitudinal_g'' = None then Inl (KeyError ''longitudinal_g'')
           else if non_numeric d ''longitudinal_g'' then Inl TypeError
           else Inr (setitem d ''total_g'' v))"
proof (cases "column d ''lateral_g''")
  case None
  then show ?thesis by (simp add: assign_total_g_csv_def getitem_def)
next
  case la: (Some la)
  show ?thesis
  proof (cases "list_all numeric la")
    case False
    with unary_strict_fail [OF strict_pow2, of "Series la"]
    have "pow2 (Series la) = Inl TypeError" by (simp add: pow2_def)
    with la False show ?thesis by (simp add: assign_total_g_csv_def getitem_def non_numeric_def)
  next
    case nla: True
    with unary_strict_total [OF strict_pow2, of "Series la"]
    obtain la2 where la2: "pow2 (Series la) = Inr la2" by (auto simp: pow2_def)
    show ?thesis
    proof (cases "column d ''longitudinal_g''")
      case None
      with la nla la2 show ?thesis
        by (simp add: assign_total_g_csv_def getitem_def non_numeric_def)
    next
      case lo: (Some lo)
      from root_sum_result [where a = "Series la" and b = "Series lo"
          and f = "setitem d ''total_g''"] la2
      obtain v where "(case pow2 (Series lo) of
                Inl e \<Rightarrow> Inl e
              | Inr b2 \<Rightarrow>
                  (case add la2 b2 of
                     Inl e \<Rightarrow> Inl e
                   | Inr s \<Rightarrow> (case pow_half s of Inl e \<Rightarrow> Inl e
                              | Inr v \<Rightarrow> Inr (setitem d ''total_g'' v))))
          = (if numeric_op (Series la) \<and> numeric_op (Series lo)
             then Inr (setitem d ''total_g'' v) else Inl TypeError)"
        by auto
      with la lo nla la2 show ?thesis
        by (intro exI [of _ v]) (simp add: assign_total_g_csv_def getitem_def non_numeric_def)
    qed
  qed
qed

lemma assign_time_relative_result:
  "\<exists>v. assign_time_relative d =
          (if column d ''time_s'' = None then Inl (KeyError ''time_s'')
           else if column d ''time_s'' = Some [] then Inl IndexError
           else if non_numeric d ''time_s'' then Inl TypeError
           else Inr (setitem d ''time_relative'' v))"
proof (cases "column d ''time_s''")
  case None
  then show ?thesis by (simp add: assign_time_relative_def getitem_def)
next
  case (Some ts)
  show ?thesis
  proof (cases ts)
    case Nil
    with Some show ?thesis by (simp add: assign_time_relative_def getitem_def iloc0_def)
  next
    case (Cons t0 ts')
    show ?thesis
    proof (cases "list_all numeric ts")
      case True
      with Cons have "numeric_op (Series ts)" "numeric_op (Scalar t0)" by simp_all
      from binary_strict_total [OF strict2_sub this]
      obtain v where "sub (Series ts) (Scalar t0) = Inr v" by (auto simp: sub_def)
      with Some Cons True show ?thesis
        by (intro exI [of _ v])
          (simp add: assign_time_relative_def getitem_def iloc0_def non_numeric_def)
    next
      case False
      from False obtain x where x: "x \<in> set ts" "\<not> numeric x" by (auto simp: list_all_iff)
      from x(2) have "sub_cell x t0 = Inl TypeError" by (cases x) simp_all
      with x(1) map_err_fail [of ts "\<lambda>x. sub_cell x t0"]
      obtain e where "map_err (\<lambda>x. sub_cell x t0) ts = Inl e" by blast
      then have e: "sub (Series ts) (Scalar t0) = Inl e" by (simp add: sub_def)
      from binary_strict_Inl [OF strict2_sub e [unfolded sub_def]] e
      have "sub (Series ts) (Scalar t0) = Inl TypeError" by simp
      with Some Cons False show ?thesis
        by (simp add: assign_time_relative_def getitem_def iloc0_def non_numeric_def)
    qed
  qed
qed

text \<open>The derivation of lines 83 to 90: which error, by what the table holds.\<close>

lemma derive_error:
  assumes "wf_df df"
  shows "fst (derive df) =
           (if column df ''speed_kmh'' = None then Some (KeyError ''speed_kmh'')
            else if non_numeric df ''speed_kmh'' then Some TypeError
            else if non_numeric df ''lateral_g'' \<or> non_numeric df ''longitudinal_g''
              then Some TypeError
            else if column df ''time_s'' = None then Some (KeyError ''time_s'')
            else if non_numeric df ''time_s'' then Some TypeError
            else if nrows df = 0 then Some IndexError
            else None)"
proof -
  obtain v1 where s1: "assign_speed_ms df =
      (if column df ''speed_kmh'' = None then Inl (KeyError ''speed_kmh'')
       else if non_numeric df ''speed_kmh'' then Inl TypeError
       else Inr (setitem df ''speed_ms'' v1))"
    using assign_speed_ms_result by blast
  let ?d1 = "setitem df ''speed_ms'' v1"
  obtain v2 where "assign_total_g ?d1 =
      (if non_numeric ?d1 ''lateral_g'' \<or> non_numeric ?d1 ''longitudinal_g'' then Inl TypeError
       else Inr (setitem ?d1 ''total_g'' v2))"
    using assign_total_g_result by blast
  then have s2: "assign_total_g ?d1 =
      (if non_numeric df ''lateral_g'' \<or> non_numeric df ''longitudinal_g'' then Inl TypeError
       else Inr (setitem ?d1 ''total_g'' v2))"
    by (simp add: non_numeric_setitem_other)
  let ?d2 = "setitem ?d1 ''total_g'' v2"
  obtain v3 where "assign_time_minutes ?d2 =
      (if column ?d2 ''time_s'' = None then Inl (KeyError ''time_s'')
       else if non_numeric ?d2 ''time_s'' then Inl TypeError
       else Inr (setitem ?d2 ''time_minutes'' v3))"
    using assign_time_minutes_result by blast
  then have s3: "assign_time_minutes ?d2 =
      (if column df ''time_s'' = None then Inl (KeyError ''time_s'')
       else if non_numeric df ''time_s'' then Inl TypeError
       else Inr (setitem ?d2 ''time_minutes'' v3))"
    by (simp add: non_numeric_setitem_other column_setitem_other)
  let ?d3 = "setitem ?d2 ''time_minutes'' v3"
  obtain v4 where "assign_time_relative ?d3 =
      (if column ?d3 ''time_s'' = None then Inl (KeyError ''time_s'')
       else if column ?d3 ''time_s'' = Some [] then Inl IndexError
       else if non_numeric ?d3 ''time_s'' then Inl TypeError
       else Inr (setitem ?d3 ''time_relative'' v4))"
    using assign_time_relative_result by blast
  then have s4: "assign_time_relative ?d3 =
      (if column df ''time_s'' = None then Inl (KeyError ''time_s'')
       else if column df ''time_s'' = Some [] then Inl IndexError
       else if non_numeric df ''time_s'' then Inl TypeError
       else Inr (setitem ?d3 ''time_relative'' v4))"
    by (simp add: non_numeric_setitem_other column_setitem_other)
  have e: "column df ''time_s'' = Some [] \<longleftrightarrow> nrows df = 0" if "column df ''time_s'' \<noteq> None"
    using that wf_column_length [OF assms, of "''time_s''"] by auto
  show ?thesis
    unfolding derive_def derive_stmts_def
    using e by (simp add: s1 s2 s3 s4)
qed

text \<open>The derivation of lines 139 to 146 likewise.\<close>

lemma derive_csv_error:
  assumes "wf_df df"
  shows "fst (derive_csv df) =
           (if column df ''speed_kmh'' = None then Some (KeyError ''speed_kmh'')
            else if non_numeric df ''speed_kmh'' then Some TypeError
            else if column df ''lateral_g'' = None then Some (KeyError ''lateral_g'')
            else if non_numeric df ''lateral_g'' then Some TypeError
            else if column df ''longitudinal_g'' = None then Some (KeyError ''longitudinal_g'')
            else if non_numeric df ''longitudinal_g'' then Some TypeError
            else if column df ''time_s'' = None then Some (KeyError ''time_s'')
            else if non_numeric df ''time_s'' then Some TypeError
            else if nrows df = 0 then Some IndexError
            else None)"
proof -
  obtain v1 where s1: "assign_speed_ms df =
      (if column df ''speed_kmh'' = None then Inl (KeyError ''speed_kmh'')
       else if non_numeric df ''speed_kmh'' then Inl TypeError
       else Inr (setitem df ''speed_ms'' v1))"
    using assign_speed_ms_result by blast
  let ?d1 = "setitem df ''speed_ms'' v1"
  obtain v2 where "assign_total_g_csv ?d1 =
      (if column ?d1 ''lateral_g'' = None then Inl (KeyError ''lateral_g'')
       else if non_numeric ?d1 ''lateral_g'' then Inl TypeError
       else if column ?d1 ''longitudinal_g'' = None then Inl (KeyError ''longitudinal_g'')
       else if non_numeric ?d1 ''longitudinal_g'' then Inl TypeError
       else Inr (setitem ?d1 ''total_g'' v2))"
    using assign_total_g_csv_result by blast
  then have s2: "assign_total_g_csv ?d1 =
      (if column df ''lateral_g'' = None then Inl (KeyError ''lateral_g'')
       else if non_numeric df ''lateral_g'' then Inl TypeError
       else if column df ''longitudinal_g'' = None then Inl (KeyError ''longitudinal_g'')
       else if non_numeric df ''longitudinal_g'' then Inl TypeError
       else Inr (setitem ?d1 ''total_g'' v2))"
    by (simp add: non_numeric_setitem_other column_setitem_other)
  let ?d2 = "setitem ?d1 ''total_g'' v2"
  obtain v3 where "assign_time_minutes ?d2 =
      (if column ?d2 ''time_s'' = None then Inl (KeyError ''time_s'')
       else if non_numeric ?d2 ''time_s'' then Inl TypeError
       else Inr (setitem ?d2 ''time_minutes'' v3))"
    using assign_time_minutes_result by blast
  then have s3: "assign_time_minutes ?d2 =
      (if column df ''time_s'' = None then Inl (KeyError ''time_s'')
       else if non_numeric df ''time_s'' then Inl TypeError
       else Inr (setitem ?d2 ''time_minutes'' v3))"
    by (simp add: non_numeric_setitem_other column_setitem_other)
  let ?d3 = "setitem ?d2 ''time_minutes'' v3"
  obtain v4 where "assign_time_relative ?d3 =
      (if column ?d3 ''time_s'' = None then Inl (KeyError ''time_s'')
       else if column ?d3 ''time_s'' = Some [] then Inl IndexError
       else if non_numeric ?d3 ''time_s'' then Inl TypeError
       else Inr (setitem ?d3 ''time_relative'' v4))"
    using assign_time_relative_result by blast
  then have s4: "assign_time_relative ?d3 =
      (if column df ''time_s'' = None then Inl (KeyError ''time_s'')
       else if column df ''time_s'' = Some [] then Inl IndexError
       else if non_numeric df ''time_s'' then Inl TypeError
       else Inr (setitem ?d3 ''time_relative'' v4))"
    by (simp add: non_numeric_setitem_other column_setitem_other)
  have e: "column df ''time_s'' = Some [] \<longleftrightarrow> nrows df = 0" if "column df ''time_s'' \<noteq> None"
    using that wf_column_length [OF assms, of "''time_s''"] by auto
  show ?thesis
    unfolding derive_csv_def derive_csv_stmts_def
    using e by (simp add: s1 s2 s3 s4)
qed

text \<open>When the derivation of lines 83 to 90 succeeds.\<close>

lemma derive_ok_iff:
  assumes "wf_df df"
  shows "fst (derive df) = None \<longleftrightarrow>
           0 < nrows df
         \<and> column df ''speed_kmh'' \<noteq> None \<and> column df ''time_s'' \<noteq> None
         \<and> \<not> non_numeric df ''speed_kmh'' \<and> \<not> non_numeric df ''time_s''
         \<and> \<not> non_numeric df ''lateral_g'' \<and> \<not> non_numeric df ''longitudinal_g''"
  unfolding derive_error [OF assms] by auto

text \<open>
  Claim C5, as amended. A well-formed table (its column names distinct, its columns as
  long as its index) decides which error the derivation raises, if any. Lines 83 to 90
  raise KeyError when there is no \<^verbatim>\<open>speed_kmh\<close> column; else TypeError when
  \<^verbatim>\<open>speed_kmh\<close>, or a \<^verbatim>\<open>lateral_g\<close> or \<^verbatim>\<open>longitudinal_g\<close> column that is there, holds a cell
  that is not numeric; else KeyError when there is no \<^verbatim>\<open>time_s\<close> column; else TypeError
  when \<^verbatim>\<open>time_s\<close> holds a cell that is not numeric; else IndexError when the table has
  no rows; and succeed otherwise. So on a table with no rows they raise the KeyError of
  the first missing column, or else IndexError. Lines 139 to 146 do the same, except
  that they raise KeyError when \<^verbatim>\<open>lateral_g\<close> or \<^verbatim>\<open>longitudinal_g\<close> is absent. The columns
  \<^verbatim>\<open>rpm\<close>, \<^verbatim>\<open>brake_pressure_bar\<close> and \<^verbatim>\<open>distance_m\<close> play no part.
\<close>

theorem derive_error_cases:
  assumes "wf_df df"
  shows "fst (derive df) =
           (if column df ''speed_kmh'' = None then Some (KeyError ''speed_kmh'')
            else if non_numeric df ''speed_kmh'' then Some TypeError
            else if non_numeric df ''lateral_g'' \<or> non_numeric df ''longitudinal_g''
              then Some TypeError
            else if column df ''time_s'' = None then Some (KeyError ''time_s'')
            else if non_numeric df ''time_s'' then Some TypeError
            else if nrows df = 0 then Some IndexError
            else None)
       \<and> fst (derive_csv df) =
           (if column df ''speed_kmh'' = None then Some (KeyError ''speed_kmh'')
            else if non_numeric df ''speed_kmh'' then Some TypeError
            else if column df ''lateral_g'' = None then Some (KeyError ''lateral_g'')
            else if non_numeric df ''lateral_g'' then Some TypeError
            else if column df ''longitudinal_g'' = None then Some (KeyError ''longitudinal_g'')
            else if non_numeric df ''longitudinal_g'' then Some TypeError
            else if column df ''time_s'' = None then Some (KeyError ''time_s'')
            else if non_numeric df ''time_s'' then Some TypeError
            else if nrows df = 0 then Some IndexError
            else None)
       \<and> (nrows df = 0 \<longrightarrow>
            fst (derive df) =
              (if column df ''speed_kmh'' = None then Some (KeyError ''speed_kmh'')
               else if column df ''time_s'' = None then Some (KeyError ''time_s'')
               else Some IndexError))"
proof -
  have "\<not> non_numeric df n" if "nrows df = 0" for n
  proof (cases "column df n")
    case None
    then show ?thesis by (simp add: non_numeric_def)
  next
    case (Some c)
    with wf_column_length [OF assms Some] that show ?thesis by (simp add: non_numeric_def)
  qed
  then have "nrows df = 0 \<longrightarrow>
            fst (derive df) =
              (if column df ''speed_kmh'' = None then Some (KeyError ''speed_kmh'')
               else if column df ''time_s'' = None then Some (KeyError ''time_s'')
               else Some IndexError)"
    unfolding derive_error [OF assms] by simp
  with derive_error [OF assms] derive_csv_error [OF assms] show ?thesis by (intro conjI)
qed

text \<open>
  A table with no rows and a table with a string for a speed: IndexError and TypeError
  from lines 83 to 90, KeyError and TypeError from lines 139 to 146.
\<close>

theorem derive_error_cases_witness:
  "wf_df empty_data \<and> fst (derive empty_data) = Some IndexError
   \<and> fst (derive_csv empty_data) = Some (KeyError ''lateral_g'')
   \<and> wf_df text_speed_data \<and> fst (derive text_speed_data) = Some TypeError
   \<and> fst (derive_csv text_speed_data) = Some TypeError"
proof -
  have wf: "wf_df empty_data" "wf_df text_speed_data"
    by (simp_all add: wf_df_def empty_data_def text_speed_data_def)
  have c: "column empty_data ''speed_kmh'' = Some []" "column empty_data ''time_s'' = Some []"
    "column empty_data ''lateral_g'' = None" "column empty_data ''longitudinal_g'' = None"
    "nrows empty_data = 0"
    by (simp_all add: column_def empty_data_def)
  have n: "\<not> non_numeric empty_data ''speed_kmh''" "\<not> non_numeric empty_data ''time_s''"
    "\<not> non_numeric empty_data ''lateral_g''" "\<not> non_numeric empty_data ''longitudinal_g''"
    by (simp_all add: non_numeric_def c)
  have t: "column text_speed_data ''speed_kmh'' \<noteq> None" "non_numeric text_speed_data ''speed_kmh''"
    by (simp_all add: non_numeric_def column_def text_speed_data_def)
  from derive_error_cases [OF wf(1)] c n
  have "fst (derive empty_data) = Some IndexError"
    "fst (derive_csv empty_data) = Some (KeyError ''lateral_g'')" by simp_all
  moreover from derive_error_cases [OF wf(2)] t
  have "fst (derive text_speed_data) = Some TypeError"
    "fst (derive_csv text_speed_data) = Some TypeError" by simp_all
  ultimately show ?thesis using wf by blast
qed

text \<open>
  Claim C5 as stated fails: a table without \<^verbatim>\<open>rpm\<close>, \<^verbatim>\<open>brake_pressure_bar\<close> and
  \<^verbatim>\<open>distance_m\<close> is derived without any error.
\<close>

theorem required_fields_counterexample:
  "wf_df no_rpm_data \<and> 0 < nrows no_rpm_data
   \<and> column no_rpm_data ''rpm'' = None \<and> column no_rpm_data ''brake_pressure_bar'' = None
   \<and> column no_rpm_data ''distance_m'' = None
   \<and> fst (derive no_rpm_data) = None"
  by (simp add: wf_df_def derive_def derive_stmts_def no_rpm_data_def stmt_defs)

section \<open>Absent acceleration columns\<close>

lemma total_g_zero:
  assumes "derive df = (None, out)"
    and "column df ''lateral_g'' = None" and "column df ''longitudinal_g'' = None"
  shows "get_default df ''lateral_g'' (Int64 0) = Scalar (Int64 0)
       \<and> get_default df ''longitudinal_g'' (Int64 0) = Scalar (Int64 0)
       \<and> column out ''total_g'' = Some (replicate (nrows df) (Float64 (Fin 0)))
       \<and> (\<forall>i<nrows df. cell_at out ''total_g'' i = Some (Float64 (Fin 0)))"
proof -
  have g: "get_default df ''lateral_g'' (Int64 0) = Scalar (Int64 0)"
    "get_default df ''longitudinal_g'' (Int64 0) = Scalar (Int64 0)"
    using assms(2,3) by (simp_all add: get_default_def)
  from assms(1) obtain v1 la2 lo2 s v2 v3 v4 where r:
    "pow2 (get_default df ''lateral_g'' (Int64 0)) = Inr la2"
    "pow2 (get_default df ''longitudinal_g'' (Int64 0)) = Inr lo2"
    "add la2 lo2 = Inr s" "pow_half s = Inr v2"
    "out = setitem (setitem (setitem (setitem df ''speed_ms'' v1) ''total_g'' v2)
                  ''time_minutes'' v3) ''time_relative'' v4"
    unfolding derive_success by blast
  from r(1,2) g have "la2 = Scalar (Int64 0)" "lo2 = Scalar (Int64 0)"
    by (auto simp: pow2_def)
  with r(3) have "s = Scalar (Int64 0)" by (auto simp: add_def)
  with r(4) have "v2 = Scalar (Float64 (Fin 0))"
    by (auto simp: pow_half_def of_int64_def to_double_small)
  then have c: "column out ''total_g'' = Some (replicate (nrows df) (Float64 (Fin 0)))"
    by (simp add: r(5) column_setitem nrows_setitem broadcast_def)
  then have "\<forall>i<nrows df. cell_at out ''total_g'' i = Some (Float64 (Fin 0))"
    by (simp add: cell_at_def)
  with g c show ?thesis by blast
qed

text \<open>
  Claim C4, as amended. On a well-formed table with at least one row and numeric
  \<^verbatim>\<open>speed_kmh\<close> and \<^verbatim>\<open>time_s\<close> columns, but neither a \<^verbatim>\<open>lateral_g\<close> nor a \<^verbatim>\<open>longitudinal_g\<close>
  column, lines 83 to 90 read both as the scalar 0 and succeed, and the \<^verbatim>\<open>total_g\<close> of
  every record is 0.0. Lines 139 to 146 read the two columns with \<^verbatim>\<open>telemetry[...]\<close>: on
  the same table line 140 raises KeyError for \<^verbatim>\<open>lateral_g\<close> and assigns no \<^verbatim>\<open>total_g\<close>.
\<close>

theorem total_g_default:
  assumes "wf_df df" and "0 < nrows df"
    and "column df ''speed_kmh'' \<noteq> None" and "column df ''time_s'' \<noteq> None"
    and "\<not> non_numeric df ''speed_kmh''" and "\<not> non_numeric df ''time_s''"
    and "column df ''lateral_g'' = None" and "column df ''longitudinal_g'' = None"
  shows "get_default df ''lateral_g'' (Int64 0) = Scalar (Int64 0)
       \<and> get_default df ''longitudinal_g'' (Int64 0) = Scalar (Int64 0)
       \<and> (\<exists>out. derive df = (None, out)
              \<and> column out ''total_g'' = Some (replicate (nrows df) (Float64 (Fin 0)))
              \<and> (\<forall>i<nrows df. cell_at out ''total_g'' i = Some (Float64 (Fin 0))))
       \<and> fst (derive_csv df) = Some (KeyError ''lateral_g'')
       \<and> column (snd (derive_csv df)) ''total_g'' = column df ''total_g''"
proof -
  have "\<not> non_numeric df ''lateral_g''" "\<not> non_numeric df ''longitudinal_g''"
    using assms(7,8) by (simp_all add: non_numeric_def)
  with assms(2-6) have "fst (derive df) = None"
    unfolding derive_ok_iff [OF assms(1)] by simp
  then have ok: "derive df = (None, snd (derive df))" by (simp add: prod_eq_iff)
  have e: "fst (derive_csv df) = Some (KeyError ''lateral_g'')"
    unfolding derive_csv_error [OF assms(1)] using assms(3,5,7) by simp
  obtain v1 where "assign_speed_ms df =
      (if column df ''speed_kmh'' = None then Inl (KeyError ''speed_kmh'')
       else if non_numeric df ''speed_kmh'' then Inl TypeError
       else Inr (setitem df ''speed_ms'' v1))"
    using assign_speed_ms_result by blast
  with assms(3,5) have 1: "assign_speed_ms df = Inr (setitem df ''speed_ms'' v1)" by simp
  have "column (setitem df ''speed_ms'' v1) ''lateral_g'' = None"
    using assms(7) by (simp add: column_setitem)
  then have "assign_total_g_csv (setitem df ''speed_ms'' v1) = Inl (KeyError ''lateral_g'')"
    by (simp add: assign_total_g_csv_def getitem_def)
  with 1 have "snd (derive_csv df) = setitem df ''speed_ms'' v1"
    by (simp add: derive_csv_def derive_csv_stmts_def)
  then have c: "column (snd (derive_csv df)) ''total_g'' = column df ''total_g''"
    by (simp add: column_setitem)
  from total_g_zero [OF ok assms(7,8)] ok e c show ?thesis by blast
qed

text \<open>The table of lines 42 to 49 has neither column; its fourth record.\<close>

theorem total_g_default_witness:
  "wf_df telemetry_data \<and> 0 < nrows telemetry_data
   \<and> column telemetry_data ''speed_kmh'' \<noteq> None \<and> column telemetry_data ''time_s'' \<noteq> None
   \<and> \<not> non_numeric telemetry_data ''speed_kmh'' \<and> \<not> non_numeric telemetry_data ''time_s''
   \<and> column telemetry_data ''lateral_g'' = None \<and> column telemetry_data ''longitudinal_g'' = None
   \<and> derive telemetry_data = (None, telemetry_derived)
   \<and> column telemetry_derived ''total_g''
       = Some (replicate (nrows telemetry_data) (Float64 (Fin 0)))
   \<and> cell_at telemetry_derived ''total_g'' 3 = Some (Float64 (Fin 0))
   \<and> fst (derive_csv telemetry_data) = Some (KeyError ''lateral_g'')
   \<and> column (snd (derive_csv telemetry_data)) ''total_g'' = None"
proof -
  have n: "0 < nrows telemetry_data" "3 < nrows telemetry_data"
    by (simp_all add: telemetry_data_def)
  have p: "column telemetry_data ''speed_kmh'' \<noteq> None" "column telemetry_data ''time_s'' \<noteq> None"
    by (simp_all add: column_def telemetry_data_def)
  have q: "\<not> non_numeric telemetry_data ''speed_kmh''" "\<not> non_numeric telemetry_data ''time_s''"
    by (simp_all add: non_numeric_def column_def telemetry_data_def)
  have c: "column telemetry_data ''lateral_g'' = None" "column telemetry_data ''longitudinal_g'' = None"
    "column telemetry_data ''total_g'' = None"
    by (simp_all add: column_def telemetry_data_def)
  from total_g_default [OF wf_telemetry_data n(1) p q c(1,2)] derive_telemetry_data n(2) c(3)
  have "column telemetry_derived ''total_g''
          = Some (replicate (nrows telemetry_data) (Float64 (Fin 0)))"
    "cell_at telemetry_derived ''total_g'' 3 = Some (Float64 (Fin 0))"
    "fst (derive_csv telemetry_data) = Some (KeyError ''lateral_g'')"
    "column (snd (derive_csv telemetry_data)) ''total_g'' = None"
    by auto
  with wf_telemetry_data n(1) p q c derive_telemetry_data show ?thesis by blast
qed

text \<open>
  Claim C4 as stated fails on lines 139 to 146: on the table of lines 42 to 49, which
  has neither column, line 140 raises KeyError and the table gets no \<^verbatim>\<open>total_g\<close>.
\<close>

theorem total_g_required_counterexample:
  "wf_df telemetry_data \<and> 0 < nrows telemetry_data
   \<and> column telemetry_data ''lateral_g'' = None \<and> column telemetry_data ''longitudinal_g'' = None
   \<and> fst (derive_csv telemetry_data) = Some (KeyError ''lateral_g'')
   \<and> column (snd (derive_csv telemetry_data)) ''total_g'' = None"
  by (simp add: wf_df_def derive_csv_def derive_csv_stmts_def telemetry_data_def stmt_defs)

section \<open>The scenario of two records\<close>

text \<open>
  Claim C9 as stated fails: the \<^verbatim>\<open>speed_ms\<close> of the first record, whose \<^verbatim>\<open>speed_kmh\<close> is
  10, is not 9.722 to three decimals.
\<close>

theorem scenario_record1_counterexample:
  "\<not> approx3 (cell_at (snd (derive scenario_input)) ''speed_ms'' 0) 9.722"
  by (simp add: derive_def derive_stmts_def scenario_input_def stmt_defs cell_at_def approx3_def)

text \<open>
  Claim C9, as amended. On the two records of the scenario, which have no
  \<^verbatim>\<open>lateral_g\<close> and no \<^verbatim>\<open>longitudinal_g\<close>, the derivation succeeds; the first record
  gets \<^verbatim>\<open>speed_ms\<close> 10 / 3.6, which is 2.778 to three decimals, \<^verbatim>\<open>time_relative\<close> 0 and
  \<^verbatim>\<open>total_g\<close> 0; the second gets \<^verbatim>\<open>speed_ms\<close> 35 / 3.6, which is 9.722 to three
  decimals, and \<^verbatim>\<open>time_relative\<close> 1.
\<close>

theorem scenario_derived:
  "fst (derive scenario_input) = None
   \<and> column scenario_input ''lateral_g'' = None \<and> column scenario_input ''longitudinal_g'' = None
   \<and> cell_at (snd (derive scenario_input)) ''speed_ms'' 0 = Some (Float64 (Fin (10 / 3.6)))
   \<and> approx3 (cell_at (snd (derive scenario_input)) ''speed_ms'' 0) 2.778
   \<and> cell_at (snd (derive scenario_input)) ''time_relative'' 0 = Some (Int64 0)
   \<and> cell_at (snd (derive scenario_input)) ''total_g'' 0 = Some (Float64 (Fin 0))
   \<and> cell_at (snd (derive scenario_input)) ''speed_ms'' 1 = Some (Float64 (Fin (35 / 3.6)))
   \<and> approx3 (cell_at (snd (derive scenario_input)) ''speed_ms'' 1) 9.722
   \<and> cell_at (snd (derive scenario_input)) ''time_relative'' 1 = Some (Int64 1)"
  by (simp add: derive_def derive_stmts_def scenario_input_def stmt_defs cell_at_def approx3_def)

section \<open>Renaming\<close>

lemma rename_label_mapper:
  "rename_label rename_mapper n =
     (if n = ''speed_kmh'' then ''velocity_kmh''
      else if n = ''time_s'' then ''timestamp_seconds''
      else if n = ''distance_m'' then ''position_meters'' else n)"
  by (simp add: rename_label_def rename_mapper_def)

text \<open>
  Claim C10. The assignment of lines 96 to 100 (and 152 to 156) leaves \<^verbatim>\<open>telemetry\<close> as
  it was and binds \<^verbatim>\<open>telemetry_renamed\<close> to a new table with the same rows and the same
  column data in the same positions, in which \<^verbatim>\<open>speed_kmh\<close>, \<^verbatim>\<open>time_s\<close> and
  \<^verbatim>\<open>distance_m\<close> are named \<^verbatim>\<open>velocity_kmh\<close>, \<^verbatim>\<open>timestamp_seconds\<close> and
  \<^verbatim>\<open>position_meters\<close> and every other column keeps its name.
\<close>

theorem rename_keeps_original:
  "telemetry (assign_telemetry_renamed st) = telemetry st
   \<and> (\<exists>r. telemetry_renamed (assign_telemetry_renamed st) = Some r
          \<and> r = rename rename_mapper (telemetry st)
          \<and> nrows r = nrows (telemetry st)
          \<and> map snd (cols r) = map snd (cols (telemetry st))
          \<and> column_names r = map (rename_label rename_mapper) (column_names (telemetry st)))
   \<and> rename_label rename_mapper ''speed_kmh'' = ''velocity_kmh''
   \<and> rename_label rename_mapper ''time_s'' = ''timestamp_seconds''
   \<and> rename_label rename_mapper ''distance_m'' = ''position_meters''
   \<and> (\<forall>n. n \<notin> {''speed_kmh'', ''time_s'', ''distance_m''} \<longrightarrow> rename_label rename_mapper n = n)"
  by (simp add: assign_telemetry_renamed_def rename_def column_names_def rename_label_mapper
      comp_def)

text \<open>The two records of the scenario, renamed; \<^verbatim>\<open>rpm\<close> keeps its name.\<close>

theorem rename_keeps_original_witness:
  "telemetry (assign_telemetry_renamed \<lparr>telemetry = scenario_input, telemetry_renamed = None\<rparr>)
     = scenario_input
   \<and> telemetry_renamed (assign_telemetry_renamed \<lparr>telemetry = scenario_input, telemetry_renamed = None\<rparr>)
     = Some \<lparr>nrows = 2,
             cols = [(''timestamp_seconds'', [Int64 0, Int64 1]),
                     (''velocity_kmh'', [Int64 10, Int64 35]),
                     (''position_meters'', [Int64 0, Int64 100]),
                     (''brake_pressure_bar'', [Int64 0, Int64 10]),
                     (''rpm'', [Int64 1000, Int64 3000])]\<rparr>
   \<and> ''rpm'' \<notin> {''speed_kmh'', ''time_s'', ''distance_m''}
   \<and> rename_label rename_mapper ''rpm'' = ''rpm''"
proof -
  have r: "rename rename_mapper scenario_input
     = \<lparr>nrows = 2,
             cols = [(''timestamp_seconds'', [Int64 0, Int64 1]),
                     (''velocity_kmh'', [Int64 10, Int64 35]),
                     (''position_meters'', [Int64 0, Int64 100]),
                     (''brake_pressure_bar'', [Int64 0, Int64 10]),
                     (''rpm'', [Int64 1000, Int64 3000])]\<rparr>"
    by (simp add: rename_def rename_label_mapper scenario_input_def)
  have n: "''rpm'' \<notin> {''speed_kmh'', ''time_s'', ''distance_m''}" by simp
  from rename_keeps_original [of "\<lparr>telemetry = scenario_input, telemetry_renamed = None\<rparr>"] r n
  show ?thesis by auto
qed

end
